theory Spec2Isabelle
  imports Complex_Main
begin

section \<open>Python and numpy values\<close>

text \<open>
  The notebooks compute with Python and numpy floating-point numbers.  A finite float is
  modelled by the real number it stands for: rounding, overflow and underflow are not
  part of the model.  What numpy does where real arithmetic has no answer (division by
  zero) and what Python does where it raises are branches of the model.  Underflow of
  the importance weights is the subject of a second embedding of the weight functions,
  in a section of its own.
\<close>

datatype py_error = NameError | ZeroDivisionError | TypeError | ValueError

text \<open>A numpy float64 after a division: a finite value, an infinity or NaN.\<close>

datatype np_float = Finite real | PosInf | NegInf | NaN

text \<open>numpy's \<^verbatim>\<open>a / b\<close> on float64: division by zero is not an exception, it gives
  NaN for \<^verbatim>\<open>0 / 0\<close> and a signed infinity otherwise.\<close>

definition np_div :: "real \<Rightarrow> real \<Rightarrow> np_float" where
  "np_div a b =
     (if b \<noteq> 0 then Finite (a / b)
      else if a = 0 then NaN
      else if 0 < a then PosInf else NegInf)"

text \<open>Python's \<^verbatim>\<open>int(x)\<close> on a float truncates toward zero.\<close>

definition py_int :: "real \<Rightarrow> int" where
  "py_int x = (if 0 \<le> x then \<lfloor>x\<rfloor> else \<lceil>x\<rceil>)"

text \<open>Python's \<^verbatim>\<open>a % b\<close> on floats takes the sign of the divisor.\<close>

definition py_fmod :: "real \<Rightarrow> real \<Rightarrow> real" where
  "py_fmod a b = a - b * of_int \<lfloor>a / b\<rfloor>"

text \<open>\<^verbatim>\<open>np.radians\<close>: degrees to radians.\<close>

definition radians :: "real \<Rightarrow> real" where
  "radians d = d * pi / 180"

text \<open>\<^verbatim>\<open>np.linalg.norm\<close> of a vector of two components.\<close>

definition np_norm2 :: "real \<Rightarrow> real \<Rightarrow> real" where
  "np_norm2 a b = sqrt (a\<^sup>2 + b\<^sup>2)"

text \<open>\<^verbatim>\<open>scipy.stats.norm.pdf(x, loc, scale)\<close>: the standard normal density
  \<^verbatim>\<open>exp(-t**2/2) / sqrt(2*pi)\<close> at \<^verbatim>\<open>t = (x - loc) / scale\<close>, divided by the scale.\<close>

definition norm_pdf :: "real \<Rightarrow> real \<Rightarrow> real \<Rightarrow> real" where
  "norm_pdf x loc scale = exp (- ((x - loc) / scale)\<^sup>2 / 2) / sqrt (2 * pi) / scale"

section \<open>The occupancy map\<close>

text \<open>
  The map is a two-dimensional numpy array: \<open>shape0\<close> rows (the y extent), \<open>shape1\<close>
  columns (the x extent), read as \<^verbatim>\<open>grid_map[y, x]\<close>; an obstacle cell holds 1.
\<close>

record grid =
  shape0 :: int
  shape1 :: int
  cell :: "int \<Rightarrow> int \<Rightarrow> real"

text \<open>Modelled from the spec: \<^verbatim>\<open>inbounds\<close> of the module \<^verbatim>\<open>utils\<close>, which the
  notebooks import; the bounds predicate of the occupancy map provider.\<close>

definition inbounds :: "grid \<Rightarrow> int \<Rightarrow> int \<Rightarrow> bool" where
  "inbounds grid_map x y = (0 \<le> x \<and> x < shape1 grid_map \<and> 0 \<le> y \<and> y < shape0 grid_map)"

text \<open>Modelled from the spec: \<^verbatim>\<open>valid_location\<close> of the module \<^verbatim>\<open>utils\<close>; a valid
  location lies within the bounds of the map and not inside an obstacle cell.\<close>

definition valid_location :: "grid \<Rightarrow> int \<Rightarrow> int \<Rightarrow> bool" where
  "valid_location grid_map x y = (inbounds grid_map x y \<and> cell grid_map y x \<noteq> 1)"

section \<open>The Lidar sensor\<close>

record lidar_sensor =
  max_range :: int

text \<open>\<^verbatim>\<open>LidarSensor.lookup_prob\<close>.  \<^verbatim>\<open>1 / self._max_range\<close> raises ZeroDivisionError
  for a zero range; the Gaussian term is computed before it.\<close>

definition lookup_prob :: "lidar_sensor \<Rightarrow> real \<Rightarrow> real \<Rightarrow> py_error + real" where
  "lookup_prob sensor expected_dist measured_dist =
     (let norm_prob = 0.95 * norm_pdf measured_dist expected_dist 1
      in if max_range sensor = 0 then Inl ZeroDivisionError
         else
           let random_prob = 0.03 * (1 / real_of_int (max_range sensor));
               failure_prob =
                 (if measured_dist = real_of_int (max_range sensor) then 0.02 else 0)
           in Inr (norm_prob + random_prob + failure_prob))"

text \<open>
  The random numbers of numpy are arguments of the model: \<^verbatim>\<open>np.random.normal(loc, scale)\<close>
  as a function of a standard normal deviate, \<^verbatim>\<open>np.random.randint(low, high)\<close> as a
  function of a uniform number of [0, 1); \<^verbatim>\<open>randint\<close> raises ValueError for an empty
  range.
\<close>

definition np_normal :: "real \<Rightarrow> real \<Rightarrow> real \<Rightarrow> real" where
  "np_normal loc scale z = loc + scale * z"

definition np_randint :: "int \<Rightarrow> int \<Rightarrow> real \<Rightarrow> py_error + int" where
  "np_randint low high u =
     (if high \<le> low then Inl ValueError
      else Inr (low + \<lfloor>real_of_int (high - low) * u\<rfloor>))"

text \<open>\<^verbatim>\<open>_random_measure\<close>, \<^verbatim>\<open>_failure_measure\<close>, \<^verbatim>\<open>_hit_measure\<close> and \<^verbatim>\<open>measure\<close> of
  \<^verbatim>\<open>LidarSensor\<close>; the draws are the number \<open>p\<close> of \<^verbatim>\<open>np.random.rand()\<close>, the normal
  deviate of the hit and the uniform number of the random return.\<close>

definition random_measure :: "lidar_sensor \<Rightarrow> real \<Rightarrow> py_error + int" where
  "random_measure sensor u = np_randint 0 (max_range sensor + 1) u"

definition failure_measure :: "lidar_sensor \<Rightarrow> int" where
  "failure_measure sensor = max_range sensor"

definition hit_measure :: "real \<Rightarrow> real \<Rightarrow> real" where
  "hit_measure expected_dist z = np_normal expected_dist 1 z"

definition measure_lidar :: "lidar_sensor \<Rightarrow> real \<Rightarrow> real \<times> real \<times> real \<Rightarrow> py_error + real" where
  "measure_lidar sensor expected_dist d =
     (case d of (p, z, u) \<Rightarrow>
        if p \<le> 0.95 then Inr (hit_measure expected_dist z)
        else if p \<le> 0.98
        then (case random_measure sensor u of
                Inl e \<Rightarrow> Inl e
              | Inr r \<Rightarrow> Inr (real_of_int r))
        else Inr (real_of_int (failure_measure sensor)))"

text \<open>The density of the normal distribution with the given mean and standard deviation,
  as the specification names it; compared with \<open>norm_pdf\<close> below.\<close>

definition gaussian_density :: "real \<Rightarrow> real \<Rightarrow> real \<Rightarrow> real" where
  "gaussian_density mean std x =
     1 / (std * sqrt (2 * pi)) * exp (- ((x - mean)\<^sup>2 / (2 * std\<^sup>2)))"

section \<open>Ray casting\<close>

text \<open>
  \<^verbatim>\<open>bresenham(x0, y0, x1, y1)\<close> is the generator of the Python package \<^verbatim>\<open>bresenham\<close>,
  a dependency of the notebooks: it yields the cells of the line from the start to the end
  point, both included.  \<open>bresenham_steps\<close> is its loop \<^verbatim>\<open>for x in range(dx + 1)\<close>,
  the first argument counting the iterations left.
\<close>

fun bresenham_steps ::
  "nat \<Rightarrow> int \<times> int \<Rightarrow> int \<times> int \<times> int \<times> int \<Rightarrow> int \<Rightarrow> int \<Rightarrow> int \<Rightarrow> int \<Rightarrow> int
     \<Rightarrow> (int \<times> int) list" where
  "bresenham_steps 0 start dirs dx dy x y D = []"
| "bresenham_steps (Suc n) (x0, y0) (xx, xy, yx, yy) dx dy x y D =
     (x0 + x * xx + y * yx, y0 + x * xy + y * yy) #
     (if 0 \<le> D
      then bresenham_steps n (x0, y0) (xx, xy, yx, yy) dx dy (x + 1) (y + 1) (D - 2 * dx + 2 * dy)
      else bresenham_steps n (x0, y0) (xx, xy, yx, yy) dx dy (x + 1) y (D + 2 * dy))"

definition bresenham :: "int \<Rightarrow> int \<Rightarrow> int \<Rightarrow> int \<Rightarrow> (int \<times> int) list" where
  "bresenham x0 y0 x1 y1 =
     (let dx = x1 - x0;
          dy = y1 - y0;
          xsign = (if 0 < dx then 1 else - 1);
          ysign = (if 0 < dy then 1 else - 1);
          adx = \<bar>dx\<bar>;
          ady = \<bar>dy\<bar>
      in if ady < adx
         then bresenham_steps (nat (adx + 1)) (x0, y0) (xsign, 0, 0, ysign) adx ady 0 0
                (2 * ady - adx)
         else bresenham_steps (nat (ady + 1)) (x0, y0) (0, ysign, xsign, 0) ady adx 0 0
                (2 * adx - ady))"

text \<open>The loop of \<^verbatim>\<open>get_distance\<close> over the cells: it returns at the first cell out of
  bounds, breaks at the first obstacle cell, and keeps the initial distance and location
  when the cells run out.\<close>

fun walk_cells ::
  "grid \<Rightarrow> lidar_sensor \<Rightarrow> real \<Rightarrow> real \<Rightarrow> real \<times> real \<Rightarrow> (int \<times> int) list
     \<Rightarrow> real \<times> real \<times> real" where
  "walk_cells grid_map sensor x y loc [] = (real_of_int (max_range sensor), loc)"
| "walk_cells grid_map sensor x y loc (c # cells) =
     (if \<not> inbounds grid_map (fst c) (snd c) then (real_of_int (max_range sensor), loc)
      else if cell grid_map (snd c) (fst c) = 1
      then (np_norm2 (x - real_of_int (fst c)) (y - real_of_int (snd c)),
            (real_of_int (fst c), real_of_int (snd c)))
      else walk_cells grid_map sensor x y loc cells)"

definition get_distance ::
  "grid \<Rightarrow> lidar_sensor \<Rightarrow> real \<Rightarrow> real \<Rightarrow> real \<Rightarrow> real \<times> real \<times> real" where
  "get_distance grid_map sensor x y angle =
     (let x2 = x + real_of_int (max_range sensor) * cos angle;
          y2 = y + real_of_int (max_range sensor) * sin angle;
          cells = bresenham (py_int x) (py_int y) (py_int x2) (py_int y2)
      in walk_cells grid_map sensor x y (x2, y2) cells)"

text \<open>The cells \<^verbatim>\<open>get_distance\<close> walks: the Bresenham line from the cell of the origin
  to the cell of the endpoint at maximum range.\<close>

definition ray_cells :: "lidar_sensor \<Rightarrow> real \<Rightarrow> real \<Rightarrow> real \<Rightarrow> (int \<times> int) list" where
  "ray_cells sensor x y angle =
     bresenham (py_int x) (py_int y)
       (py_int (x + real_of_int (max_range sensor) * cos angle))
       (py_int (y + real_of_int (max_range sensor) * sin angle))"

text \<open>A state is \<^verbatim>\<open>[x, y, theta]\<close>.\<close>

type_synonym state = "real \<times> real \<times> real"

text \<open>The angle of ray \<open>i\<close> of \<open>k\<close> in \<^verbatim>\<open>shoot_rays\<close>.\<close>

definition ray_angle :: "real \<Rightarrow> nat \<Rightarrow> nat \<Rightarrow> real" where
  "ray_angle theta k i =
     (let bearing = real i * (360 / real k)
      in py_fmod (theta + radians bearing) (2 * pi))"

definition shoot_rays :: "grid \<Rightarrow> lidar_sensor \<Rightarrow> state \<Rightarrow> nat \<Rightarrow> real list" where
  "shoot_rays grid_map sensor st k =
     (case st of (x, y, theta) \<Rightarrow>
        map (\<lambda>i. fst (get_distance grid_map sensor x y (ray_angle theta k i))) [0..<k])"

section \<open>Importance weights and sensor fusion\<close>

text \<open>The loop of \<^verbatim>\<open>importance\<close> over the zipped expected and measured distances.\<close>

fun importance_loop :: "lidar_sensor \<Rightarrow> real \<Rightarrow> (real \<times> real) list \<Rightarrow> py_error + real" where
  "importance_loop sensor weight [] = Inr weight"
| "importance_loop sensor weight ((ed, md) # rest) =
     (case lookup_prob sensor ed md of
        Inl e \<Rightarrow> Inl e
      | Inr p \<Rightarrow> importance_loop sensor (weight * p) rest)"

definition importance :: "grid \<Rightarrow> lidar_sensor \<Rightarrow> state \<Rightarrow> real list \<Rightarrow> py_error + real" where
  "importance grid_map sensor st measured_distances =
     (let expected_distances = shoot_rays grid_map sensor st (length measured_distances)
      in importance_loop sensor 1 (zip expected_distances measured_distances))"

text \<open>The loop of \<^verbatim>\<open>sensor_fusion\<close> that collects the unnormalized weights.\<close>

fun collect_weights ::
  "grid \<Rightarrow> lidar_sensor \<Rightarrow> real list \<Rightarrow> real list \<Rightarrow> state list \<Rightarrow> py_error + real list" where
  "collect_weights grid_map sensor measured_distances weights [] = Inr weights"
| "collect_weights grid_map sensor measured_distances weights (s # samples) =
     (case importance grid_map sensor s measured_distances of
        Inl e \<Rightarrow> Inl e
      | Inr weight \<Rightarrow>
          collect_weights grid_map sensor measured_distances (weights @ [weight]) samples)"

text \<open>
  \<^verbatim>\<open>sensor_fusion\<close>: the weights, divided in place by their sum.  With no measured
  distance every weight is the Python integer 1, the array is an integer array, and
  numpy refuses the in-place true division with a TypeError; an empty array is a float
  array.
\<close>

definition sensor_fusion ::
  "grid \<Rightarrow> lidar_sensor \<Rightarrow> state list \<Rightarrow> real list \<Rightarrow> py_error + np_float list" where
  "sensor_fusion grid_map sensor samples measured_distances =
     (case collect_weights grid_map sensor measured_distances [] samples of
        Inl e \<Rightarrow> Inl e
      | Inr weights \<Rightarrow>
          if weights \<noteq> [] \<and> measured_distances = [] then Inl TypeError
          else Inr (map (\<lambda>w. np_div w (sum_list weights)) weights))"

section \<open>The weights in double arithmetic with underflow\<close>

text \<open>
  The smallest positive double is 2 to the power -1074.  Rounding to nearest takes a
  product or quotient whose exact value is at most 2 to the power -1075 in magnitude to
  zero; this is underflow.  The running product \<^verbatim>\<open>weight *= ...\<close> of \<^verbatim>\<open>importance\<close>
  meets it when many small likelihoods are multiplied.  The definitions of this section
  embed \<^verbatim>\<open>importance\<close> and \<^verbatim>\<open>sensor_fusion\<close> a second time, line by line as above,
  with this one effect of double arithmetic added to the products and quotients; a
  result that does not underflow is still the real number.
\<close>

definition underflow_bound :: real where
  "underflow_bound = 1 / 2 ^ 1075"

definition underflow :: "real \<Rightarrow> real" where
  "underflow x = (if \<bar>x\<bar> \<le> underflow_bound then 0 else x)"

fun importance_loop_f64 :: "lidar_sensor \<Rightarrow> real \<Rightarrow> (real \<times> real) list \<Rightarrow> py_error + real" where
  "importance_loop_f64 sensor weight [] = Inr weight"
| "importance_loop_f64 sensor weight ((ed, md) # rest) =
     (case lookup_prob sensor ed md of
        Inl e \<Rightarrow> Inl e
      | Inr p \<Rightarrow> importance_loop_f64 sensor (underflow (weight * p)) rest)"

definition importance_f64 :: "grid \<Rightarrow> lidar_sensor \<Rightarrow> state \<Rightarrow> real list \<Rightarrow> py_error + real" where
  "importance_f64 grid_map sensor st measured_distances =
     (let expected_distances = shoot_rays grid_map sensor st (length measured_distances)
      in importance_loop_f64 sensor 1 (zip expected_distances measured_distances))"

fun collect_weights_f64 ::
  "grid \<Rightarrow> lidar_sensor \<Rightarrow> real list \<Rightarrow> real list \<Rightarrow> state list \<Rightarrow> py_error + real list" where
  "collect_weights_f64 grid_map sensor measured_distances weights [] = Inr weights"
| "collect_weights_f64 grid_map sensor measured_distances weights (s # samples) =
     (case importance_f64 grid_map sensor s measured_distances of
        Inl e \<Rightarrow> Inl e
      | Inr weight \<Rightarrow>
          collect_weights_f64 grid_map sensor measured_distances (weights @ [weight]) samples)"

definition np_div_f64 :: "real \<Rightarrow> real \<Rightarrow> np_float" where
  "np_div_f64 a b =
     (if b \<noteq> 0 then Finite (underflow (a / b))
      else if a = 0 then NaN
      else if 0 < a then PosInf else NegInf)"

definition sensor_fusion_f64 ::
  "grid \<Rightarrow> lidar_sensor \<Rightarrow> state list \<Rightarrow> real list \<Rightarrow> py_error + np_float list" where
  "sensor_fusion_f64 grid_map sensor samples measured_distances =
     (case collect_weights_f64 grid_map sensor measured_distances [] samples of
        Inl e \<Rightarrow> Inl e
      | Inr weights \<Rightarrow>
          if weights \<noteq> [] \<and> measured_distances = [] then Inl TypeError
          else Inr (map (\<lambda>w. np_div_f64 w (sum_list weights)) weights))"

section \<open>Sampling from the prior\<close>

text \<open>
  \<^verbatim>\<open>np.random.uniform(low, high)\<close> as a function of a uniform number of [0, 1).
  The random source is an explicit argument: one triple of numbers per iteration of the
  loop of \<^verbatim>\<open>sample_from_prior\<close>, for x, y and theta.
\<close>

definition np_uniform :: "real \<Rightarrow> real \<Rightarrow> real \<Rightarrow> real" where
  "np_uniform low high u = low + (high - low) * u"

type_synonym draws = "nat \<Rightarrow> real \<times> real \<times> real"

text \<open>The candidate sample of one iteration.  The extents come from the global
  \<^verbatim>\<open>grid\<close> of the notebook, not from the argument \<^verbatim>\<open>grid_map\<close>.\<close>

definition candidate :: "grid \<Rightarrow> state option \<Rightarrow> real \<times> real \<times> real \<Rightarrow> state" where
  "candidate grid st d =
     (case d of (ux, uy, t) \<Rightarrow>
        let x = np_uniform 0 (real_of_int (shape1 grid)) ux;
            y = np_uniform 0 (real_of_int (shape0 grid)) uy;
            theta = (case st of
                       None \<Rightarrow> np_uniform (- pi) pi t
                     | Some s \<Rightarrow> np_normal (snd (snd s)) (radians 0.5) t)
        in (x, y, theta))"

text \<open>Whether \<^verbatim>\<open>sample_from_prior\<close> keeps a candidate.\<close>

definition accepted :: "grid \<Rightarrow> state \<Rightarrow> bool" where
  "accepted grid_map s = valid_location grid_map (py_int (fst s)) (py_int (fst (snd s)))"

text \<open>The loop \<^verbatim>\<open>while len(samples) < N\<close>; \<open>i\<close> counts the iterations done.  The loop
  has no bound, so the result is an option: \<open>None\<close> is a run that never returns.\<close>

partial_function (option) sample_loop ::
  "grid \<Rightarrow> grid \<Rightarrow> int \<Rightarrow> state option \<Rightarrow> draws \<Rightarrow> nat \<Rightarrow> state list \<Rightarrow> state list option"
where
  "sample_loop grid grid_map N st rng i samples =
     (if int (length samples) < N
      then let s = candidate grid st (rng i)
           in if accepted grid_map s
              then sample_loop grid grid_map N st rng (Suc i) (samples @ [s])
              else sample_loop grid grid_map N st rng (Suc i) samples
      else Some samples)"

declare sample_loop.simps [code]

definition sample_from_prior ::
  "grid \<Rightarrow> grid \<Rightarrow> int \<Rightarrow> state option \<Rightarrow> draws \<Rightarrow> state list option" where
  "sample_from_prior grid grid_map N st rng = sample_loop grid grid_map N st rng 0 []"

text \<open>How many of the \<open>n\<close> candidates of the iterations \<open>i\<close>, \<open>i + 1\<close>, ... are
  accepted.\<close>

definition accepted_count :: "grid \<Rightarrow> grid \<Rightarrow> state option \<Rightarrow> draws \<Rightarrow> nat \<Rightarrow> nat \<Rightarrow> nat" where
  "accepted_count grid grid_map st rng i n =
     length (filter (\<lambda>j. accepted grid_map (candidate grid st (rng j))) [i..<i + n])"

section \<open>The particle filter\<close>

text \<open>\<^verbatim>\<open>particle_filter\<close> as the notebook has it: both arguments are copied and
  returned; the body between is a comment.\<close>

definition particle_filter ::
  "grid \<Rightarrow> lidar_sensor \<Rightarrow> state \<Rightarrow> state list \<Rightarrow> int \<Rightarrow> int \<Rightarrow> state list \<times> state" where
  "particle_filter grid sensor ground_truth_state samples n_timesteps rays =
     (let samples' = samples;
          ground_truth_state' = ground_truth_state
      in (samples', ground_truth_state'))"

section \<open>The Kalman filter\<close>

text \<open>A numpy array of one or of two dimensions.\<close>

datatype ndarray = Array1 "real list" | Array2 "real list list"

record kf =
  r_t :: ndarray
  q_t :: ndarray
  dt :: real
  mu :: ndarray
  sigma :: ndarray
  mu_bar :: ndarray
  sigma_bar :: ndarray

text \<open>\<^verbatim>\<open>KF.__init__\<close>.\<close>

definition KF_init :: "real \<Rightarrow> real \<Rightarrow> real \<Rightarrow> real \<Rightarrow> kf" where
  "KF_init sensor_sigma velocity_sigma position_sigma delta_t =
     \<lparr>r_t = Array2 [[sensor_sigma\<^sup>2]],
      q_t = Array2 [[velocity_sigma\<^sup>2, 0], [0, position_sigma\<^sup>2]],
      dt = delta_t,
      mu = Array1 [0],
      sigma = Array1 [0],
      mu_bar = Array1 [0],
      sigma_bar = Array1 [0]\<rparr>"

text \<open>The properties \<^verbatim>\<open>KF.a\<close> and \<^verbatim>\<open>KF.b\<close>.\<close>

definition KF_a :: "kf \<Rightarrow> ndarray" where
  "KF_a self = Array2 [[1, 0], [dt self, 1]]"

definition KF_b :: "kf \<Rightarrow> ndarray" where
  "KF_b self = Array2 [[dt self], [0]]"

definition initial_values :: "kf \<Rightarrow> ndarray \<Rightarrow> ndarray \<Rightarrow> kf" where
  "initial_values self mu_0 sigma_0 = self\<lparr>mu := mu_0, sigma := sigma_0\<rparr>"

text \<open>
  The namespace of the notebook's module: the global names that are bound.  The bodies
  of \<^verbatim>\<open>predict\<close> and \<^verbatim>\<open>update\<close> assign nothing to \<^verbatim>\<open>mu_bar\<close>, \<^verbatim>\<open>sigma_bar\<close>,
  \<^verbatim>\<open>mu\<close> and \<^verbatim>\<open>sigma\<close> (the assignments are comments), so Python reads these names
  from the module and raises NameError for a name that is not bound.
\<close>

type_synonym namespace = "string \<rightharpoonup> ndarray"

text \<open>\<^verbatim>\<open>KF.predict\<close>: the object after the call, and the error or the returned pair.\<close>

definition KF_predict :: "namespace \<Rightarrow> kf \<Rightarrow> ndarray \<Rightarrow> kf \<times> (py_error + ndarray \<times> ndarray)" where
  "KF_predict globals self u =
     (case globals ''mu_bar'' of
        None \<Rightarrow> (self, Inl NameError)
      | Some m \<Rightarrow>
          let self1 = self\<lparr>mu_bar := m\<rparr>
          in (case globals ''sigma_bar'' of
                None \<Rightarrow> (self1, Inl NameError)
              | Some s \<Rightarrow> (self1\<lparr>sigma_bar := s\<rparr>, Inr (m, s))))"

text \<open>\<^verbatim>\<open>KF.update\<close>.\<close>

definition KF_update :: "namespace \<Rightarrow> kf \<Rightarrow> real \<Rightarrow> kf \<times> (py_error + ndarray \<times> ndarray)" where
  "KF_update globals self z =
     (case globals ''mu'' of
        None \<Rightarrow> (self, Inl NameError)
      | Some m \<Rightarrow>
          let self1 = self\<lparr>mu := m\<rparr>
          in (case globals ''sigma'' of
                None \<Rightarrow> (self1, Inl NameError)
              | Some s \<Rightarrow> (self1\<lparr>sigma := s\<rparr>, Inr (m, s))))"

text \<open>A call of \<^verbatim>\<open>predict\<close> followed immediately by a call of \<^verbatim>\<open>update\<close>; an
  exception of the first call ends the sequence.\<close>

definition predict_then_update ::
  "namespace \<Rightarrow> kf \<Rightarrow> ndarray \<Rightarrow> real \<Rightarrow> kf \<times> (py_error + ndarray \<times> ndarray)" where
  "predict_then_update globals self u z =
     (case KF_predict globals self u of
        (self1, Inl e) \<Rightarrow> (self1, Inl e)
      | (self1, Inr r) \<Rightarrow> KF_update globals self1 z)"

section \<open>Example data\<close>

text \<open>The sensor of the notebooks, \<^verbatim>\<open>LidarSensor(100)\<close>.\<close>

definition notebook_sensor :: lidar_sensor where
  "notebook_sensor = \<lparr>max_range = 100\<rparr>"

text \<open>A map of 921 by 921 cells whose only obstacle is the cell x = 435, y = 500.\<close>

definition obstacle_map :: grid where
  "obstacle_map =
     \<lparr>shape0 = 921, shape1 = 921, cell = (\<lambda>y x. if x = 435 \<and> y = 500 then 1 else 0)\<rparr>"

text \<open>A map of 3 by 3 free cells, and a map whose single cell is an obstacle.\<close>

definition free_map :: grid where
  "free_map = \<lparr>shape0 = 3, shape1 = 3, cell = (\<lambda>y x. 0)\<rparr>"

definition blocked_map :: grid where
  "blocked_map = \<lparr>shape0 = 1, shape1 = 1, cell = (\<lambda>y x. 1)\<rparr>"

text \<open>A random source that gives the same numbers in every iteration.\<close>

definition constant_draws :: draws where
  "constant_draws = (\<lambda>i. (0, 0, 0))"

text \<open>The first Kalman filter of the notebook, its initial belief and control input.\<close>

definition MYKF :: kf where
  "MYKF = initial_values (KF_init 0.1 0.1 0.1 1) (Array2 [[1], [0]])
            (Array2 [[0.1\<^sup>2, 0], [0, 0.1\<^sup>2]])"

definition no_control :: ndarray where
  "no_control = Array2 [[0], [0]]"

section \<open>The sensor model\<close>

lemma norm_pdf_gaussian: "norm_pdf x loc 1 = gaussian_density loc 1 x"
  by (simp add: norm_pdf_def gaussian_density_def)

lemma norm_pdf_pos: "0 < norm_pdf x loc 1"
  by (simp add: norm_pdf_def)

text \<open>
  C3.  For a sensor of non-zero maximum range, \<open>lookup_prob\<close> of an expected and a
  measured distance is 0.95 times the Gaussian density of the measured distance with the
  expected distance as mean and standard deviation 1, plus 0.03 times 1 / max_range, plus
  0.02 when the measured distance equals the maximum range exactly.
\<close>

theorem lookup_prob_mixture:
  assumes "max_range sensor \<noteq> 0"
  shows "lookup_prob sensor e m =
           Inr (0.95 * gaussian_density e 1 m
                + 0.03 * (1 / real_of_int (max_range sensor))
                + (if m = real_of_int (max_range sensor) then 0.02 else 0))"
  using assms by (simp add: lookup_prob_def Let_def norm_pdf_gaussian)

theorem lookup_prob_mixture_witness:
  "max_range \<lparr>max_range = 100\<rparr> \<noteq> 0 \<and>
   lookup_prob \<lparr>max_range = 100\<rparr> 70 100 =
     Inr (0.95 * gaussian_density 70 1 100 + 0.03 * (1 / 100) + 0.02)"
  using lookup_prob_mixture [of "\<lparr>max_range = 100\<rparr>" 70 100] by simp


section \<open>The importance weight\<close>

lemma lookup_prob_Inr:
  assumes "max_range sensor \<noteq> 0"
  shows "\<exists>p. lookup_prob sensor e m = Inr p"
  using assms by (simp add: lookup_prob_def Let_def)

lemma lookup_prob_lower:
  assumes "0 < max_range sensor" and "lookup_prob sensor e m = Inr p"
  shows "0.03 * (1 / real_of_int (max_range sensor)) \<le> p"
proof -
  have "0 < norm_pdf m e 1" by (rule norm_pdf_pos)
  then show ?thesis
    using assms by (auto simp: lookup_prob_def Let_def split: if_splits)
qed

lemma importance_loop_product:
  assumes "\<forall>i<length eds. lookup_prob sensor (eds ! i) (mds ! i) = Inr (ps ! i)"
    and "length eds = length mds" and "length ps = length mds"
  shows "importance_loop sensor w (zip eds mds) = Inr (w * prod_list ps)"
  using assms
proof (induction eds arbitrary: mds ps w)
  case Nil
  then show ?case by simp
next
  case (Cons e eds)
  then obtain m mds' where mds: "mds = m # mds'" by (cases mds) auto
  with Cons.prems obtain p ps' where ps: "ps = p # ps'" by (cases ps) auto
  from Cons.prems(1) mds ps have h0: "lookup_prob sensor e m = Inr p" by force
  from Cons.prems(1) mds ps
  have hs: "\<forall>i<length eds. lookup_prob sensor (eds ! i) (mds' ! i) = Inr (ps' ! i)" by force
  have "importance_loop sensor (w * p) (zip eds mds') = Inr (w * p * prod_list ps')"
    using Cons.IH [OF hs] Cons.prems mds ps by simp
  then show ?case using h0 mds ps by (simp add: mult.assoc)
qed

lemma length_shoot_rays: "length (shoot_rays grid_map sensor st k) = k"
  by (cases st) (simp add: shoot_rays_def)

lemma lookup_values_exist:
  assumes "max_range sensor \<noteq> 0" and "length eds = length mds"
  shows "\<exists>ps. length ps = length mds \<and>
           (\<forall>i<length mds. lookup_prob sensor (eds ! i) (mds ! i) = Inr (ps ! i))"
proof -
  define f where "f = (\<lambda>i. SOME p. lookup_prob sensor (eds ! i) (mds ! i) = Inr p)"
  have "\<And>i. lookup_prob sensor (eds ! i) (mds ! i) = Inr (f i)"
    unfolding f_def using lookup_prob_Inr [OF assms(1)] by (rule someI_ex)
  then have "length (map f [0..<length mds]) = length mds \<and>
    (\<forall>i<length mds. lookup_prob sensor (eds ! i) (mds ! i) = Inr (map f [0..<length mds] ! i))"
    by simp
  then show ?thesis by blast
qed

lemma importance_is_product:
  assumes "max_range sensor \<noteq> 0"
  shows "\<exists>ps. length ps = length mds \<and>
           (\<forall>i<length mds.
              lookup_prob sensor (shoot_rays grid_map sensor st (length mds) ! i) (mds ! i)
                = Inr (ps ! i)) \<and>
           importance grid_map sensor st mds = Inr (prod_list ps)"
proof -
  let ?eds = "shoot_rays grid_map sensor st (length mds)"
  have len: "length ?eds = length mds" by (rule length_shoot_rays)
  from lookup_values_exist [OF assms len]
  obtain ps where ps: "length ps = length mds"
    "\<forall>i<length mds. lookup_prob sensor (?eds ! i) (mds ! i) = Inr (ps ! i)" by blast
  have "importance_loop sensor 1 (zip ?eds mds) = Inr (1 * prod_list ps)"
    using importance_loop_product [of ?eds sensor mds ps 1] ps len by simp
  then have "importance grid_map sensor st mds = Inr (prod_list ps)"
    by (simp add: importance_def Let_def)
  with ps show ?thesis by blast
qed

section \<open>Ray casting: arithmetic of the example\<close>

lemma cos_radians_45: "cos (radians 45) = sqrt 2 / 2"
  by (simp add: radians_def cos_45)

lemma sin_radians_45: "sin (radians 45) = sqrt 2 / 2"
  by (simp add: radians_def sin_45)

lemma sqrt2_lower: "1.4 < sqrt 2"
  by (rule real_less_rsqrt) (simp add: power2_eq_square)

lemma sqrt2_upper: "sqrt 2 < 1.42"
  by (rule real_less_lsqrt) (simp_all add: power2_eq_square)

lemma py_int_x2: "py_int (385 + 100 * (sqrt 2 / 2)) = 455"
proof -
  have "\<lfloor>385 + 100 * (sqrt 2 / 2)\<rfloor> = 455"
    using sqrt2_lower sqrt2_upper by (simp add: floor_eq_iff)
  then show ?thesis using sqrt2_lower by (simp add: py_int_def)
qed

lemma py_int_y2: "py_int (450 + 100 * (sqrt 2 / 2)) = 520"
proof -
  have "\<lfloor>450 + 100 * (sqrt 2 / 2)\<rfloor> = 520"
    using sqrt2_lower sqrt2_upper by (simp add: floor_eq_iff)
  then show ?thesis using sqrt2_lower by (simp add: py_int_def)
qed

lemma bresenham_steps_diag:
  "0 \<le> D \<Longrightarrow>
   bresenham_steps n (x0, y0) (0, 1, 1, 0) d d x x D =
     map (\<lambda>i. (x0 + x + int i, y0 + x + int i)) [0..<n]"
proof (induction n arbitrary: x)
  case 0
  then show ?case by simp
next
  case (Suc n)
  have "map (\<lambda>i. (x0 + x + int i, y0 + x + int i)) [0..<Suc n] =
        (x0 + x, y0 + x) # map (\<lambda>i. (x0 + (x + 1) + int i, y0 + (x + 1) + int i)) [0..<n]"
    by (simp add: map_upt_Suc del: upt_Suc add: add.assoc add.commute add.left_commute)
  then show ?case using Suc by simp
qed

lemma bresenham_example:
  "bresenham 385 450 455 520 = map (\<lambda>i. (385 + int i, 450 + int i)) [0..<71]"
  using bresenham_steps_diag [of 70 71 385 450 70 0]
  by (simp add: bresenham_def Let_def)

lemma upt_71: "[0..<71] = [0..<50] @ 50 # [51..<71]"
proof -
  have "[0..<71] = [0..<50] @ [50..<71]"
    using upt_add_eq_append [of 0 50 21] by simp
  also have "[50..<71] = 50 # [51..<71]"
    by (simp add: upt_conv_Cons)
  finally show ?thesis .
qed


section \<open>Ray casting on small maps\<close>

lemma py_int_numeral [simp]: "py_int (numeral n) = numeral n"
  by (simp add: py_int_def)

lemma py_int_one [simp]: "py_int 1 = 1"
  by (simp add: py_int_def)

lemma py_fmod_zero [simp]: "py_fmod 0 b = 0"
  by (simp add: py_fmod_def)

lemma ray_angle_first [simp]: "ray_angle 0 k 0 = 0"
  by (simp add: ray_angle_def radians_def)

lemma ray_cells_short: "ray_cells \<lparr>max_range = 1\<rparr> 1 1 0 = [(1, 1), (2, 1)]"
  by (simp add: ray_cells_def bresenham_def Let_def numeral_2_eq_2)

lemma get_distance_walk:
  "get_distance grid_map sensor x y angle =
     walk_cells grid_map sensor x y
       (x + real_of_int (max_range sensor) * cos angle,
        y + real_of_int (max_range sensor) * sin angle)
       (ray_cells sensor x y angle)"
  by (simp add: get_distance_def ray_cells_def Let_def)

lemma get_distance_short: "get_distance free_map \<lparr>max_range = 1\<rparr> 1 1 0 = (1, 2, 1)"
  by (simp add: get_distance_walk ray_cells_short free_map_def inbounds_def)

lemma shoot_rays_short: "shoot_rays free_map \<lparr>max_range = 1\<rparr> (1, 1, 0) 1 = [1]"
  by (simp add: shoot_rays_def get_distance_short)

section \<open>Importance is a product of likelihoods\<close>

text \<open>
  C7.  For a sensor of non-zero maximum range, every state and every list of k measured
  distances, \<open>shoot_rays\<close> with k rays gives k expected distances, \<open>lookup_prob\<close> of each
  pair of expected and measured distance is a number, and \<open>importance\<close> returns the
  product of these k numbers.
\<close>

theorem importance_product:
  assumes "max_range sensor \<noteq> 0"
  shows "length (shoot_rays grid_map sensor st (length mds)) = length mds \<and>
         (\<exists>ps. length ps = length mds \<and>
            (\<forall>i<length mds.
               lookup_prob sensor (shoot_rays grid_map sensor st (length mds) ! i) (mds ! i)
                 = Inr (ps ! i)) \<and>
            importance grid_map sensor st mds = Inr (prod_list ps))"
  using importance_is_product [OF assms] length_shoot_rays by blast

theorem importance_product_witness:
  "max_range \<lparr>max_range = 1\<rparr> \<noteq> 0 \<and>
   importance free_map \<lparr>max_range = 1\<rparr> (1, 1, 0) [1] =
     Inr (0.95 * gaussian_density 1 1 1 + 0.03 * (1 / 1) + 0.02)"
proof -
  have nz: "max_range \<lparr>max_range = 1\<rparr> \<noteq> 0" by simp
  from importance_product [OF nz, of free_map "(1, 1, 0)" "[1]"]
  obtain ps where len: "length ps = 1"
    and lp: "lookup_prob \<lparr>max_range = 1\<rparr> (shoot_rays free_map \<lparr>max_range = 1\<rparr> (1, 1, 0) 1 ! 0) 1
               = Inr (ps ! 0)"
    and imp: "importance free_map \<lparr>max_range = 1\<rparr> (1, 1, 0) [1] = Inr (prod_list ps)"
    by auto
  from len obtain p where ps: "ps = [p]"
    by (cases ps) auto
  have "lookup_prob \<lparr>max_range = 1\<rparr> 1 1 =
          Inr (0.95 * gaussian_density 1 1 1 + 0.03 * (1 / 1) + 0.02)"
    by (simp add: lookup_prob_def Let_def norm_pdf_gaussian)
  moreover from lp ps have "lookup_prob \<lparr>max_range = 1\<rparr> 1 1 = Inr p"
    unfolding shoot_rays_short by simp
  ultimately have "p = 0.95 * gaussian_density 1 1 1 + 0.03 * (1 / 1) + 0.02"
    by simp
  with imp ps nz show ?thesis by simp
qed

section \<open>Positive weights\<close>

lemma importance_loop_positive:
  assumes "0 < max_range sensor" and "0 < w"
  shows "\<exists>v. importance_loop sensor w ps = Inr v \<and> 0 < v"
  using assms(2)
proof (induction ps arbitrary: w)
  case Nil
  then show ?case by simp
next
  case (Cons a ps)
  obtain ed md where a: "a = (ed, md)" by (cases a)
  from assms(1) obtain p where p: "lookup_prob sensor ed md = Inr p"
    using lookup_prob_Inr [of sensor ed md] by auto
  have "0 < 0.03 * (1 / real_of_int (max_range sensor))"
    using assms(1) by simp
  with lookup_prob_lower [OF assms(1) p] have "0 < p" by linarith
  with Cons.prems have "0 < w * p" by simp
  from Cons.IH [OF this] show ?case using a p by simp
qed

lemma importance_positive:
  assumes "0 < max_range sensor"
  shows "\<exists>w. importance grid_map sensor st mds = Inr w \<and> 0 < w"
  using importance_loop_positive [OF assms, of 1] by (simp add: importance_def Let_def)

lemma collect_weights_positive:
  assumes "0 < max_range sensor" and "\<forall>w\<in>set acc. 0 < w"
  shows "\<exists>ws. collect_weights grid_map sensor mds acc samples = Inr ws \<and>
           length ws = length acc + length samples \<and> (\<forall>w\<in>set ws. 0 < w)"
  using assms(2)
proof (induction samples arbitrary: acc)
  case Nil
  then show ?case by simp
next
  case (Cons s samples)
  from importance_positive [OF assms(1)]
  obtain w where w: "importance grid_map sensor s mds = Inr w" "0 < w" by blast
  with Cons.prems have "\<forall>v\<in>set (acc @ [w]). 0 < v" by auto
  from Cons.IH [OF this] show ?case using w by auto
qed

lemma sum_list_positive:
  fixes ws :: "real list"
  assumes "ws \<noteq> []" and "\<forall>w\<in>set ws. 0 < w"
  shows "0 < sum_list ws"
  using assms
proof (induction ws)
  case Nil
  then show ?case by simp
next
  case (Cons w ws)
  have "0 \<le> sum_list ws"
    using Cons.prems by (intro sum_list_nonneg) (auto intro: less_imp_le)
  with Cons.prems show ?case by simp
qed

text \<open>
  C10.  For a sensor with max_range > 0: every value of \<open>lookup_prob\<close> is at least
  0.03 / max_range, which is positive; \<open>importance\<close> returns a positive weight for every
  state and every list of measured distances; the weights \<open>sensor_fusion\<close> collects are
  positive, one per sample, so their sum is positive for a non-empty sample set, and with
  at least one measured distance every normalized weight is then a finite quotient.
\<close>

theorem importance_strictly_positive:
  assumes "0 < max_range sensor"
  shows "(\<exists>p. lookup_prob sensor e m = Inr p \<and>
             0.03 * (1 / real_of_int (max_range sensor)) \<le> p \<and>
             0 < 0.03 * (1 / real_of_int (max_range sensor))) \<and>
         (\<exists>w. importance grid_map sensor st mds = Inr w \<and> 0 < w) \<and>
         (\<exists>ws. collect_weights grid_map sensor mds [] samples = Inr ws \<and>
             length ws = length samples \<and>
             (\<forall>w\<in>set ws. 0 < w) \<and>
             (samples \<noteq> [] \<longrightarrow> 0 < sum_list ws) \<and>
             (samples \<noteq> [] \<longrightarrow> mds \<noteq> [] \<longrightarrow>
                sensor_fusion grid_map sensor samples mds =
                  Inr (map (\<lambda>w. Finite (w / sum_list ws)) ws)))"
proof -
  from assms obtain p where p: "lookup_prob sensor e m = Inr p"
    using lookup_prob_Inr [of sensor e m] by auto
  have pos: "0 < 0.03 * (1 / real_of_int (max_range sensor))"
    using assms by simp
  have first: "\<exists>p. lookup_prob sensor e m = Inr p \<and>
             0.03 * (1 / real_of_int (max_range sensor)) \<le> p \<and>
             0 < 0.03 * (1 / real_of_int (max_range sensor))"
    using p pos lookup_prob_lower [OF assms p] by blast
  from collect_weights_positive [OF assms, of "[]" grid_map mds samples]
  obtain ws where ws: "collect_weights grid_map sensor mds [] samples = Inr ws"
    "length ws = length samples" "\<forall>w\<in>set ws. 0 < w" by auto
  have "samples \<noteq> [] \<longrightarrow> ws \<noteq> []"
    using ws(2) by auto
  then have sum: "samples \<noteq> [] \<longrightarrow> 0 < sum_list ws"
    using ws(3) sum_list_positive [of ws] by blast
  have fusion: "samples \<noteq> [] \<longrightarrow> mds \<noteq> [] \<longrightarrow>
      sensor_fusion grid_map sensor samples mds = Inr (map (\<lambda>w. Finite (w / sum_list ws)) ws)"
  proof (intro impI)
    assume ne: "samples \<noteq> []" and "mds \<noteq> []"
    with sum have "sum_list ws \<noteq> 0" by auto
    then have "map (\<lambda>w. np_div w (sum_list ws)) ws = map (\<lambda>w. Finite (w / sum_list ws)) ws"
      by (simp add: np_div_def)
    with ws(1) \<open>mds \<noteq> []\<close> show
      "sensor_fusion grid_map sensor samples mds = Inr (map (\<lambda>w. Finite (w / sum_list ws)) ws)"
      by (simp add: sensor_fusion_def)
  qed
  from first importance_positive [OF assms] ws sum fusion show ?thesis by blast
qed

theorem importance_strictly_positive_witness:
  "0 < max_range notebook_sensor \<and>
   (\<exists>w. importance free_map notebook_sensor (1, 1, 0) [1] = Inr w \<and> 0 < w) \<and>
   (\<exists>ws. collect_weights free_map notebook_sensor [1] [] [(1, 1, 0)] = Inr ws \<and>
      0 < sum_list ws \<and>
      sensor_fusion free_map notebook_sensor [(1, 1, 0)] [1] =
        Inr (map (\<lambda>w. Finite (w / sum_list ws)) ws))"
proof -
  have pos: "0 < max_range notebook_sensor"
    by (simp add: notebook_sensor_def)
  have ne: "[(1, 1, 0)] \<noteq> ([] :: state list)" "[1] \<noteq> ([] :: real list)"
    by simp_all
  from importance_strictly_positive [OF pos, of 0 0 free_map "(1, 1, 0)" "[1]" "[(1, 1, 0)]"]
  show ?thesis using pos ne by blast
qed

section \<open>Sensor fusion has no degeneracy check\<close>

lemma walk_cells_no_obstacle:
  assumes "\<forall>r c. cell grid_map r c \<noteq> 1"
  shows "fst (walk_cells grid_map sensor x y loc cells) = real_of_int (max_range sensor)"
  using assms by (induction cells) auto

lemma shoot_rays_no_obstacle:
  assumes "\<forall>r c. cell grid_map r c \<noteq> 1"
  shows "shoot_rays grid_map sensor st k = replicate k (real_of_int (max_range sensor))"
proof -
  obtain x y theta where st: "st = (x, y, theta)" by (cases st)
  have "map (\<lambda>i. fst (get_distance grid_map sensor x y (ray_angle theta k i))) [0..<k] =
        map (\<lambda>i. real_of_int (max_range sensor)) [0..<k]"
    using assms by (simp add: get_distance_walk walk_cells_no_obstacle)
  then show ?thesis
    using st by (simp add: shoot_rays_def map_replicate_const)
qed

lemma free_map_no_obstacle: "\<forall>r c. cell free_map r c \<noteq> 1"
  by (simp add: free_map_def)

lemma exp_minus_5000: "exp (- 5000 :: real) \<le> 1 / 5001"
proof -
  have "(1 :: real) + 5000 \<le> exp 5000"
    by (rule exp_ge_add_one_self)
  then have "1 / exp (5000 :: real) \<le> 1 / 5001"
    by (intro divide_left_mono) simp_all
  then show ?thesis by (simp add: exp_minus inverse_eq_divide)
qed

text \<open>The likelihood of the reading 0 where 100 is expected: about 0.0003.\<close>

lemma far_reading_likelihood:
  "\<exists>p. lookup_prob notebook_sensor 100 0 = Inr p \<and> 0 \<le> p \<and> p \<le> 1 / 2000"
proof -
  have "norm_pdf 0 100 1 = exp (- 5000) / sqrt (2 * pi)"
    by (simp add: norm_pdf_def)
  moreover have "1 \<le> sqrt (2 * pi)"
    using pi_ge_two by (intro real_le_rsqrt) simp
  ultimately have "norm_pdf 0 100 1 \<le> exp (- 5000)"
    by (simp add: divide_le_eq)
  with exp_minus_5000 have "norm_pdf 0 100 1 \<le> 1 / 5001" by linarith
  moreover have "0 < norm_pdf 0 100 1" by (rule norm_pdf_pos)
  ultimately show ?thesis
    by (simp add: lookup_prob_def notebook_sensor_def Let_def)
qed

lemma underflow_threshold: "(1 / 2000 :: real) ^ 100 \<le> underflow_bound"
  by (simp add: underflow_bound_def power_divide divide_simps)

lemma underflow_bound_less_one: "underflow_bound < 1"
  by (simp add: underflow_bound_def)

lemma underflow_cases:
  assumes "0 \<le> x"
  shows "0 \<le> underflow x \<and> underflow x \<le> x \<and> (underflow x = 0 \<or> underflow_bound < underflow x)"
  using assms by (simp add: underflow_def)

text \<open>The running product over \<open>n\<close> equal pairs whose likelihood is at most \<open>q\<close>.\<close>

lemma importance_loop_f64_replicate:
  assumes "lookup_prob sensor ed md = Inr p" and "0 \<le> p" and "p \<le> q"
    and "0 \<le> w" and "w = 0 \<or> underflow_bound < w"
  shows "\<exists>r. importance_loop_f64 sensor w (replicate n (ed, md)) = Inr r \<and>
           0 \<le> r \<and> r \<le> w * q ^ n \<and> (r = 0 \<or> underflow_bound < r)"
  using assms(4,5)
proof (induction n arbitrary: w)
  case 0
  then show ?case by simp
next
  case (Suc n)
  let ?w = "underflow (w * p)"
  have nonneg: "0 \<le> w * p"
    using Suc.prems(1) assms(2) by simp
  from underflow_cases [OF nonneg]
  have w': "0 \<le> ?w" "?w \<le> w * p" "?w = 0 \<or> underflow_bound < ?w"
    by simp_all
  from Suc.IH [OF w'(1) w'(3)]
  obtain r where r: "importance_loop_f64 sensor ?w (replicate n (ed, md)) = Inr r"
    "0 \<le> r" "r \<le> ?w * q ^ n" "r = 0 \<or> underflow_bound < r"
    by blast
  have q: "0 \<le> q" using assms(2,3) by simp
  have "w * p \<le> w * q"
    using assms(3) Suc.prems(1) by (rule mult_left_mono)
  with w'(2) have "?w \<le> w * q" by simp
  then have "?w * q ^ n \<le> (w * q) * q ^ n"
    using q by (intro mult_right_mono) simp_all
  with r(3) have "r \<le> w * q ^ Suc n"
    by (simp add: mult.assoc)
  moreover have "importance_loop_f64 sensor w (replicate (Suc n) (ed, md)) =
      importance_loop_f64 sensor ?w (replicate n (ed, md))"
    using assms(1) by simp
  ultimately show ?case using r(1,2,4) by auto
qed

text \<open>One hundred readings of 0 on a map without obstacles, where every ray expects
  the maximum range 100: the weight of every state underflows to zero.\<close>

lemma importance_f64_underflows:
  "importance_f64 free_map notebook_sensor st (replicate 100 0) = Inr 0"
proof -
  from far_reading_likelihood obtain p where
    p: "lookup_prob notebook_sensor 100 0 = Inr p" "0 \<le> p" "p \<le> 1 / 2000"
    by blast
  have "(1 :: real) = 0 \<or> underflow_bound < (1 :: real)"
    using underflow_bound_less_one by simp
  from importance_loop_f64_replicate [OF p _ this, of 100]
  obtain r where r: "importance_loop_f64 notebook_sensor 1 (replicate 100 (100, 0)) = Inr r"
    "0 \<le> r" "r \<le> 1 * (1 / 2000) ^ 100" "r = 0 \<or> underflow_bound < r"
    by auto
  from r(3) underflow_threshold have "r \<le> underflow_bound" by simp
  with r(4) have "r = 0" by linarith
  with r(1) have loop: "importance_loop_f64 notebook_sensor 1 (replicate 100 (100, 0)) = Inr 0"
    by (simp only:)
  have "real_of_int (max_range notebook_sensor) = 100"
    by (simp add: notebook_sensor_def)
  with shoot_rays_no_obstacle [OF free_map_no_obstacle, of notebook_sensor st 100]
  have rays: "shoot_rays free_map notebook_sensor st 100 = replicate 100 100"
    by (simp only:)
  have "zip (replicate 100 (100 :: real)) (replicate 100 (0 :: real)) = replicate 100 (100, 0)"
    by (simp only: zip_replicate min.idem)
  with loop rays show ?thesis
    unfolding importance_f64_def Let_def length_replicate by (simp only:)
qed

lemma importance_loop_f64_Inr:
  assumes "max_range sensor \<noteq> 0"
  shows "\<exists>r. importance_loop_f64 sensor w ps = Inr r"
proof (induction ps arbitrary: w)
  case Nil
  then show ?case by simp
next
  case (Cons a ps)
  obtain ed md where a: "a = (ed, md)" by (cases a)
  from lookup_prob_Inr [OF assms, of ed md] obtain p where "lookup_prob sensor ed md = Inr p"
    by blast
  with Cons.IH [of "underflow (w * p)"] a show ?case by simp
qed

lemma collect_weights_f64_map:
  assumes "\<forall>s\<in>set samples. importance_f64 grid_map sensor s mds = Inr (w s)"
  shows "collect_weights_f64 grid_map sensor mds acc samples = Inr (acc @ map w samples)"
  using assms by (induction samples arbitrary: acc) simp_all

lemma collect_weights_map:
  assumes "\<forall>s\<in>set samples. importance grid_map sensor s mds = Inr (w s)"
  shows "collect_weights grid_map sensor mds acc samples = Inr (acc @ map w samples)"
  using assms by (induction samples arbitrary: acc) simp_all

lemma np_div_f64_zero: "np_div_f64 a 0 \<in> {NaN, PosInf, NegInf}"
  by (simp add: np_div_f64_def)

lemma sensor_fusion_quotients:
  assumes "max_range sensor \<noteq> 0" and "mds \<noteq> []"
  shows "\<exists>w. (\<forall>s\<in>set samples. importance grid_map sensor s mds = Inr (w s)) \<and>
           sensor_fusion grid_map sensor samples mds =
             Inr (map (\<lambda>s. np_div (w s) (sum_list (map w samples))) samples)"
proof -
  define w where "w = (\<lambda>s. SOME v. importance grid_map sensor s mds = Inr v)"
  have "\<exists>v. importance grid_map sensor s mds = Inr v" for s
    using importance_is_product [OF assms(1), of mds grid_map s] by blast
  then have w: "importance grid_map sensor s mds = Inr (w s)" for s
    unfolding w_def by (rule someI_ex)
  then have "collect_weights grid_map sensor mds [] samples = Inr (map w samples)"
    using collect_weights_map [of samples grid_map sensor mds w "[]"] by simp
  then have "sensor_fusion grid_map sensor samples mds =
      Inr (map (\<lambda>s. np_div (w s) (sum_list (map w samples))) samples)"
    using assms(2) by (simp add: sensor_fusion_def comp_def)
  with w show ?thesis by blast
qed

lemma sensor_fusion_f64_quotients:
  assumes "max_range sensor \<noteq> 0" and "mds \<noteq> []"
  shows "\<exists>w. (\<forall>s\<in>set samples. importance_f64 grid_map sensor s mds = Inr (w s)) \<and>
           sensor_fusion_f64 grid_map sensor samples mds =
             Inr (map (\<lambda>s. np_div_f64 (w s) (sum_list (map w samples))) samples)"
proof -
  define w where "w = (\<lambda>s. SOME v. importance_f64 grid_map sensor s mds = Inr v)"
  have "\<exists>v. importance_f64 grid_map sensor s mds = Inr v" for s
    using importance_loop_f64_Inr [OF assms(1)] by (simp add: importance_f64_def Let_def)
  then have w: "importance_f64 grid_map sensor s mds = Inr (w s)" for s
    unfolding w_def by (rule someI_ex)
  then have "collect_weights_f64 grid_map sensor mds [] samples = Inr (map w samples)"
    using collect_weights_f64_map [of samples grid_map sensor mds w "[]"] by simp
  then have "sensor_fusion_f64 grid_map sensor samples mds =
      Inr (map (\<lambda>s. np_div_f64 (w s) (sum_list (map w samples))) samples)"
    using assms(2) by (simp add: sensor_fusion_f64_def comp_def)
  with w show ?thesis by blast
qed

text \<open>
  C2, as the code has it.  \<open>sensor_fusion\<close> has no check of the sum of the weights and
  reports no degenerate distribution.  For a sensor of non-zero maximum range and at
  least one measured distance it returns, for every list of samples, one entry per
  sample: the importance of that sample divided, with numpy's division, by the sum of
  the importances of all samples.  This holds in exact arithmetic and in double
  arithmetic with underflow; in the latter the sum can be zero, and then every entry is
  NaN or an infinity.
\<close>

theorem sensor_fusion_unchecked:
  assumes "max_range sensor \<noteq> 0" and "mds \<noteq> []"
  shows "(\<exists>w. (\<forall>s\<in>set samples. importance grid_map sensor s mds = Inr (w s)) \<and>
            sensor_fusion grid_map sensor samples mds =
              Inr (map (\<lambda>s. np_div (w s) (sum_list (map w samples))) samples)) \<and>
         (\<exists>w. (\<forall>s\<in>set samples. importance_f64 grid_map sensor s mds = Inr (w s)) \<and>
            sensor_fusion_f64 grid_map sensor samples mds =
              Inr (map (\<lambda>s. np_div_f64 (w s) (sum_list (map w samples))) samples) \<and>
            (sum_list (map w samples) = 0 \<longrightarrow>
               (\<forall>s\<in>set samples.
                  np_div_f64 (w s) (sum_list (map w samples)) \<in> {NaN, PosInf, NegInf})))"
proof -
  from sensor_fusion_f64_quotients [OF assms, of samples grid_map]
  obtain w where w: "\<forall>s\<in>set samples. importance_f64 grid_map sensor s mds = Inr (w s)"
    "sensor_fusion_f64 grid_map sensor samples mds =
       Inr (map (\<lambda>s. np_div_f64 (w s) (sum_list (map w samples))) samples)"
    by blast
  have "sum_list (map w samples) = 0 \<longrightarrow>
      (\<forall>s\<in>set samples. np_div_f64 (w s) (sum_list (map w samples)) \<in> {NaN, PosInf, NegInf})"
    using np_div_f64_zero by (metis (no_types, lifting))
  with w sensor_fusion_quotients [OF assms, of samples grid_map] show ?thesis
    by blast
qed

lemma near_reading_importance:
  "\<exists>p. importance free_map \<lparr>max_range = 1\<rparr> (1, 1, 0) [1] = Inr p \<and> 0 < p"
  using importance_positive [of "\<lparr>max_range = 1\<rparr>" free_map "(1, 1, 0)" "[1]"] by simp

theorem sensor_fusion_unchecked_witness:
  "max_range \<lparr>max_range = 1\<rparr> \<noteq> 0 \<and> [1] \<noteq> ([] :: real list) \<and>
   sensor_fusion free_map \<lparr>max_range = 1\<rparr> [(1, 1, 0)] [1] = Inr [Finite 1] \<and>
   max_range notebook_sensor \<noteq> 0 \<and> replicate 100 0 \<noteq> ([] :: real list) \<and>
   importance_f64 free_map notebook_sensor (1, 1, 0) (replicate 100 0) = Inr 0 \<and>
   sensor_fusion_f64 free_map notebook_sensor [(1, 1, 0)] (replicate 100 0) = Inr [NaN]"
proof -
  have nz1: "max_range \<lparr>max_range = 1\<rparr> \<noteq> 0" by simp
  have ne1: "[1] \<noteq> ([] :: real list)" by simp
  from sensor_fusion_unchecked [OF nz1 ne1, of "[(1, 1, 0)]" free_map]
  obtain w where w: "importance free_map \<lparr>max_range = 1\<rparr> (1, 1, 0) [1] = Inr (w (1, 1, 0))"
    "sensor_fusion free_map \<lparr>max_range = 1\<rparr> [(1, 1, 0)] [1] =
       Inr [np_div (w (1, 1, 0)) (w (1, 1, 0))]"
    by auto
  from near_reading_importance w(1) have "0 < w (1, 1, 0)" by auto
  then have "np_div (w (1, 1, 0)) (w (1, 1, 0)) = Finite 1"
    by (simp add: np_div_def)
  with w(2) have exact: "sensor_fusion free_map \<lparr>max_range = 1\<rparr> [(1, 1, 0)] [1] = Inr [Finite 1]"
    by simp
  have nz: "max_range notebook_sensor \<noteq> 0"
    by (simp add: notebook_sensor_def)
  have ne: "replicate 100 0 \<noteq> ([] :: real list)" by simp
  from sensor_fusion_unchecked [OF nz ne, of "[(1, 1, 0)]" free_map]
  obtain v where v: "importance_f64 free_map notebook_sensor (1, 1, 0) (replicate 100 0) =
        Inr (v (1, 1, 0))"
    "sensor_fusion_f64 free_map notebook_sensor [(1, 1, 0)] (replicate 100 0) =
       Inr [np_div_f64 (v (1, 1, 0)) (v (1, 1, 0))]"
    by auto
  from v(1) importance_f64_underflows [of "(1, 1, 0)"] have zero: "v (1, 1, 0) = 0"
    by simp
  then have "np_div_f64 (v (1, 1, 0)) (v (1, 1, 0)) = NaN"
    by (simp add: np_div_f64_def)
  with v(2) have "sensor_fusion_f64 free_map notebook_sensor [(1, 1, 0)] (replicate 100 0) =
      Inr [NaN]"
    by simp
  with exact nz1 ne1 nz ne v(1) zero show ?thesis by simp
qed

text \<open>
  C2, as the specification states it, fails.  Two particles on a map without obstacles,
  a sensor of maximum range 100 and one hundred readings of 0: every likelihood is about
  0.0003, both weights underflow to zero, their sum is zero, and \<open>sensor_fusion\<close> returns
  the weight vector of two NaN entries instead of an error.
\<close>

theorem sensor_fusion_underflow_counterexample:
  "collect_weights_f64 free_map notebook_sensor (replicate 100 0) [] [(1, 1, 0), (2, 2, 0)] =
     Inr [0, 0] \<and>
   sum_list [0, 0 :: real] = 0 \<and>
   sensor_fusion_f64 free_map notebook_sensor [(1, 1, 0), (2, 2, 0)] (replicate 100 0) =
     Inr [NaN, NaN]"
proof -
  have weights: "collect_weights_f64 free_map notebook_sensor (replicate 100 0) []
      [(1, 1, 0), (2, 2, 0)] = Inr [0, 0]"
    by (simp only: collect_weights_f64.simps importance_f64_underflows sum.case append.simps)
  have "replicate 100 0 \<noteq> ([] :: real list)" by simp
  with weights have "sensor_fusion_f64 free_map notebook_sensor [(1, 1, 0), (2, 2, 0)]
      (replicate 100 0) = Inr [np_div_f64 0 0, np_div_f64 0 0]"
    by (simp add: sensor_fusion_f64_def)
  then show ?thesis using weights by (simp add: np_div_f64_def)
qed

section \<open>The walk of \<open>get_distance\<close>\<close>

text \<open>A cell the walk passes: inside the map and not an obstacle.\<close>

lemma walk_cells_hit:
  assumes "\<forall>d\<in>set pre. inbounds grid_map (fst d) (snd d) \<and> cell grid_map (snd d) (fst d) \<noteq> 1"
    and "inbounds grid_map (fst c) (snd c)" and "cell grid_map (snd c) (fst c) = 1"
  shows "walk_cells grid_map sensor x y loc (pre @ c # post) =
           (np_norm2 (x - real_of_int (fst c)) (y - real_of_int (snd c)),
            (real_of_int (fst c), real_of_int (snd c)))"
  using assms by (induction pre) auto

lemma walk_cells_leave:
  assumes "\<forall>d\<in>set pre. inbounds grid_map (fst d) (snd d) \<and> cell grid_map (snd d) (fst d) \<noteq> 1"
    and "\<not> inbounds grid_map (fst c) (snd c)"
  shows "walk_cells grid_map sensor x y loc (pre @ c # post) =
           (real_of_int (max_range sensor), loc)"
  using assms by (induction pre) auto

lemma walk_cells_free:
  assumes "\<forall>d\<in>set cells. inbounds grid_map (fst d) (snd d) \<and> cell grid_map (snd d) (fst d) \<noteq> 1"
  shows "walk_cells grid_map sensor x y loc cells = (real_of_int (max_range sensor), loc)"
  using assms by (induction cells) auto

lemma py_fmod_range:
  assumes "0 < b"
  shows "0 \<le> py_fmod a b \<and> py_fmod a b < b"
proof -
  have "of_int \<lfloor>a / b\<rfloor> * b \<le> a"
    using assms by (rule floor_divide_lower)
  moreover have "a < (of_int \<lfloor>a / b\<rfloor> + 1) * b"
    using assms by (rule floor_divide_upper)
  ultimately show ?thesis
    by (simp add: py_fmod_def algebra_simps)
qed

lemma ray_angle_wrapped:
  "0 \<le> ray_angle theta k i \<and> ray_angle theta k i < 2 * pi \<and>
   (\<exists>n::int. ray_angle theta k i =
      theta + radians (real i * (360 / real k)) - 2 * pi * of_int n)"
proof -
  have "0 < 2 * pi" by simp
  from py_fmod_range [OF this] show ?thesis
    by (auto simp: ray_angle_def Let_def py_fmod_def)
qed

lemma shoot_rays_nth:
  assumes "i < k"
  shows "shoot_rays grid_map sensor (x, y, theta) k ! i =
           fst (get_distance grid_map sensor x y (ray_angle theta k i))"
  using assms by (simp add: shoot_rays_def)

lemma ray_cells_example:
  "ray_cells notebook_sensor 385 450 (radians 45) =
     map (\<lambda>i. (385 + int i, 450 + int i)) [0..<50] @ (435, 500) #
     map (\<lambda>i. (385 + int i, 450 + int i)) [51..<71]"
proof -
  have "ray_cells notebook_sensor 385 450 (radians 45) =
          bresenham 385 450 (py_int (385 + 100 * (sqrt 2 / 2))) (py_int (450 + 100 * (sqrt 2 / 2)))"
    by (simp add: ray_cells_def notebook_sensor_def cos_radians_45 sin_radians_45)
  also have "\<dots> = map (\<lambda>i. (385 + int i, 450 + int i)) [0..<71]"
    by (simp only: py_int_x2 py_int_y2 bresenham_example)
  also have "\<dots> = map (\<lambda>i. (385 + int i, 450 + int i)) [0..<50] @ (435, 500) #
     map (\<lambda>i. (385 + int i, 450 + int i)) [51..<71]"
    by (subst upt_71) simp
  finally show ?thesis .
qed

lemma sqrt_5000: "\<bar>sqrt 5000 - 70.71\<bar> < 0.01"
proof -
  have "70.70 < sqrt 5000"
    by (rule real_less_rsqrt) (simp add: power2_eq_square)
  moreover have "sqrt 5000 < 70.72"
    by (rule real_less_lsqrt) (simp_all add: power2_eq_square)
  ultimately show ?thesis by linarith
qed

lemma get_distance_example:
  assumes "\<forall>i<50. inbounds grid_map (385 + int i) (450 + int i) \<and>
             cell grid_map (450 + int i) (385 + int i) \<noteq> 1"
    and "inbounds grid_map 435 500" and "cell grid_map 500 435 = 1"
  shows "get_distance grid_map notebook_sensor 385 450 (radians 45) = (sqrt 5000, 435, 500)"
proof -
  let ?pre = "map (\<lambda>i. (385 + int i, 450 + int i)) [0..<50]"
  have pre: "\<forall>d\<in>set ?pre. inbounds grid_map (fst d) (snd d) \<and> cell grid_map (snd d) (fst d) \<noteq> 1"
    using assms(1) by auto
  have "walk_cells grid_map notebook_sensor 385 450
          (385 + real_of_int (max_range notebook_sensor) * cos (radians 45),
           450 + real_of_int (max_range notebook_sensor) * sin (radians 45))
          (?pre @ (435, 500) # map (\<lambda>i. (385 + int i, 450 + int i)) [51..<71]) =
        (np_norm2 (385 - real_of_int (fst (435 :: int, 500 :: int)))
                  (450 - real_of_int (snd (435 :: int, 500 :: int))),
         (real_of_int (fst (435 :: int, 500 :: int)), real_of_int (snd (435 :: int, 500 :: int))))"
    by (rule walk_cells_hit [OF pre]) (use assms in simp_all)
  moreover have "np_norm2 (385 - 435) (450 - 500) = sqrt 5000"
    by (simp add: np_norm2_def)
  ultimately show ?thesis
    by (simp add: get_distance_walk ray_cells_example)
qed

lemma ray_angle_example: "ray_angle (radians 45) k 0 = radians 45"
proof -
  have "radians 45 / (2 * pi) = 1 / 8"
    by (simp add: radians_def)
  moreover have "\<lfloor>(1 :: real) / 8\<rfloor> = 0"
    by simp
  ultimately have "\<lfloor>radians 45 / (2 * pi)\<rfloor> = 0"
    by (simp only:)
  moreover have "radians (real 0 * (360 / real k)) = 0"
    by (simp add: radians_def)
  ultimately show ?thesis
    by (simp add: ray_angle_def py_fmod_def Let_def)
qed

lemma ray_cells_long:
  "ray_cells \<lparr>max_range = 5\<rparr> 1 1 0 = [(1, 1), (2, 1)] @ (3, 1) # [(4, 1), (5, 1), (6, 1)]"
  by (simp add: ray_cells_def bresenham_def Let_def eval_nat_numeral)

text \<open>
  C4.  \<open>get_distance\<close> walks the cells of the Bresenham line from the cell of the origin
  toward the cell of the endpoint at maximum range.  If the first cell of the walk that
  is out of bounds or an obstacle is an obstacle inside the map, the distance is the
  Euclidean distance from (x, y) to that cell; if it is out of bounds, or if the walk has
  no such cell, the distance is the maximum range of the sensor.  \<open>shoot_rays\<close> with k
  rays returns k entries, entry i being this distance for the heading plus i * 360 / k
  degrees, wrapped into [0, 2 pi).  On every map whose cells (385 + i, 450 + i), i < 50,
  are free and whose cell (435, 500) is an obstacle, the ray from (385, 450) at 45 degrees
  with maximum range 100 returns a distance within 0.01 of 70.71, and so does the first
  entry of \<open>shoot_rays\<close> for the state (385, 450, 45 degrees).
\<close>

theorem get_distance_first_obstacle:
  "(\<forall>pre c post.
      ray_cells sensor x y angle = pre @ c # post \<and>
      (\<forall>d\<in>set pre. inbounds grid_map (fst d) (snd d) \<and> cell grid_map (snd d) (fst d) \<noteq> 1) \<and>
      inbounds grid_map (fst c) (snd c) \<and> cell grid_map (snd c) (fst c) = 1 \<longrightarrow>
      fst (get_distance grid_map sensor x y angle) =
        sqrt ((x - real_of_int (fst c))\<^sup>2 + (y - real_of_int (snd c))\<^sup>2)) \<and>
   (\<forall>pre c post.
      ray_cells sensor x y angle = pre @ c # post \<and>
      (\<forall>d\<in>set pre. inbounds grid_map (fst d) (snd d) \<and> cell grid_map (snd d) (fst d) \<noteq> 1) \<and>
      \<not> inbounds grid_map (fst c) (snd c) \<longrightarrow>
      fst (get_distance grid_map sensor x y angle) = real_of_int (max_range sensor)) \<and>
   ((\<forall>d\<in>set (ray_cells sensor x y angle).
        inbounds grid_map (fst d) (snd d) \<and> cell grid_map (snd d) (fst d) \<noteq> 1) \<longrightarrow>
      fst (get_distance grid_map sensor x y angle) = real_of_int (max_range sensor)) \<and>
   length (shoot_rays grid_map sensor (x, y, theta) k) = k \<and>
   (\<forall>i<k. shoot_rays grid_map sensor (x, y, theta) k ! i =
             fst (get_distance grid_map sensor x y (ray_angle theta k i)) \<and>
           0 \<le> ray_angle theta k i \<and> ray_angle theta k i < 2 * pi \<and>
           (\<exists>n::int. ray_angle theta k i =
              theta + radians (real i * (360 / real k)) - 2 * pi * of_int n)) \<and>
   ((\<forall>i<50. inbounds grid_map (385 + int i) (450 + int i) \<and>
             cell grid_map (450 + int i) (385 + int i) \<noteq> 1) \<and>
    inbounds grid_map 435 500 \<and> cell grid_map 500 435 = 1 \<longrightarrow>
    \<bar>fst (get_distance grid_map notebook_sensor 385 450 (radians 45)) - 70.71\<bar> < 0.01 \<and>
    (0 < k \<longrightarrow>
       \<bar>shoot_rays grid_map notebook_sensor (385, 450, radians 45) k ! 0 - 70.71\<bar> < 0.01))"
proof -
  have hit: "\<forall>pre c post.
      ray_cells sensor x y angle = pre @ c # post \<and>
      (\<forall>d\<in>set pre. inbounds grid_map (fst d) (snd d) \<and> cell grid_map (snd d) (fst d) \<noteq> 1) \<and>
      inbounds grid_map (fst c) (snd c) \<and> cell grid_map (snd c) (fst c) = 1 \<longrightarrow>
      fst (get_distance grid_map sensor x y angle) =
        sqrt ((x - real_of_int (fst c))\<^sup>2 + (y - real_of_int (snd c))\<^sup>2)"
    by (simp add: get_distance_walk walk_cells_hit np_norm2_def)
  have leave: "\<forall>pre c post.
      ray_cells sensor x y angle = pre @ c # post \<and>
      (\<forall>d\<in>set pre. inbounds grid_map (fst d) (snd d) \<and> cell grid_map (snd d) (fst d) \<noteq> 1) \<and>
      \<not> inbounds grid_map (fst c) (snd c) \<longrightarrow>
      fst (get_distance grid_map sensor x y angle) = real_of_int (max_range sensor)"
    by (simp add: get_distance_walk walk_cells_leave)
  have free: "(\<forall>d\<in>set (ray_cells sensor x y angle).
        inbounds grid_map (fst d) (snd d) \<and> cell grid_map (snd d) (fst d) \<noteq> 1) \<longrightarrow>
      fst (get_distance grid_map sensor x y angle) = real_of_int (max_range sensor)"
    by (simp add: get_distance_walk walk_cells_free)
  have len: "length (shoot_rays grid_map sensor (x, y, theta) k) = k"
    by (rule length_shoot_rays)
  have rays: "\<forall>i<k. shoot_rays grid_map sensor (x, y, theta) k ! i =
             fst (get_distance grid_map sensor x y (ray_angle theta k i)) \<and>
           0 \<le> ray_angle theta k i \<and> ray_angle theta k i < 2 * pi \<and>
           (\<exists>n::int. ray_angle theta k i =
              theta + radians (real i * (360 / real k)) - 2 * pi * of_int n)"
    using shoot_rays_nth ray_angle_wrapped by blast
  have example: "(\<forall>i<50. inbounds grid_map (385 + int i) (450 + int i) \<and>
             cell grid_map (450 + int i) (385 + int i) \<noteq> 1) \<and>
    inbounds grid_map 435 500 \<and> cell grid_map 500 435 = 1 \<longrightarrow>
    \<bar>fst (get_distance grid_map notebook_sensor 385 450 (radians 45)) - 70.71\<bar> < 0.01 \<and>
    (0 < k \<longrightarrow>
       \<bar>shoot_rays grid_map notebook_sensor (385, 450, radians 45) k ! 0 - 70.71\<bar> < 0.01)"
  proof
    assume "(\<forall>i<50. inbounds grid_map (385 + int i) (450 + int i) \<and>
             cell grid_map (450 + int i) (385 + int i) \<noteq> 1) \<and>
      inbounds grid_map 435 500 \<and> cell grid_map 500 435 = 1"
    then have "get_distance grid_map notebook_sensor 385 450 (radians 45) = (sqrt 5000, 435, 500)"
      by (intro get_distance_example) simp_all
    then have near: "\<bar>fst (get_distance grid_map notebook_sensor 385 450 (radians 45)) - 70.71\<bar> < 0.01"
      using sqrt_5000 by simp
    have "0 < k \<longrightarrow>
       \<bar>shoot_rays grid_map notebook_sensor (385, 450, radians 45) k ! 0 - 70.71\<bar> < 0.01"
      using near by (simp add: shoot_rays_nth ray_angle_example)
    with near show "\<bar>fst (get_distance grid_map notebook_sensor 385 450 (radians 45)) - 70.71\<bar> < 0.01 \<and>
      (0 < k \<longrightarrow>
         \<bar>shoot_rays grid_map notebook_sensor (385, 450, radians 45) k ! 0 - 70.71\<bar> < 0.01)"
      by blast
  qed
  from hit leave free len rays example show ?thesis by blast
qed

lemma obstacle_map_diagonal:
  "(\<forall>i<50. inbounds obstacle_map (385 + int i) (450 + int i) \<and>
            cell obstacle_map (450 + int i) (385 + int i) \<noteq> 1) \<and>
   inbounds obstacle_map 435 500 \<and> cell obstacle_map 500 435 = 1"
  by (simp add: obstacle_map_def inbounds_def)

theorem get_distance_first_obstacle_witness:
  "\<bar>fst (get_distance obstacle_map notebook_sensor 385 450 (radians 45)) - 70.71\<bar> < 0.01 \<and>
   fst (get_distance obstacle_map notebook_sensor 385 450 (radians 45)) =
     sqrt ((385 - real_of_int 435)\<^sup>2 + (450 - real_of_int 500)\<^sup>2) \<and>
   \<bar>shoot_rays obstacle_map notebook_sensor (385, 450, radians 45) 8 ! 0 - 70.71\<bar> < 0.01 \<and>
   fst (get_distance free_map \<lparr>max_range = 5\<rparr> 1 1 0) = 5 \<and>
   fst (get_distance free_map \<lparr>max_range = 1\<rparr> 1 1 0) = 1 \<and>
   shoot_rays free_map \<lparr>max_range = 1\<rparr> (1, 1, 0) 1 ! 0 = 1"
proof -
  note at_obstacle =
    get_distance_first_obstacle [where sensor = notebook_sensor and x = 385 and y = 450
      and angle = "radians 45" and grid_map = obstacle_map and theta = "radians 45" and k = 8]
  note at_long =
    get_distance_first_obstacle [where sensor = "\<lparr>max_range = 5\<rparr>" and x = 1 and y = 1
      and angle = 0 and grid_map = free_map and theta = 0 and k = 1]
  note at_short =
    get_distance_first_obstacle [where sensor = "\<lparr>max_range = 1\<rparr>" and x = 1 and y = 1
      and angle = 0 and grid_map = free_map and theta = 0 and k = 1]
  have near: "\<bar>fst (get_distance obstacle_map notebook_sensor 385 450 (radians 45)) - 70.71\<bar> < 0.01"
    using at_obstacle obstacle_map_diagonal by blast
  have "(0 :: nat) < 8" by simp
  with at_obstacle obstacle_map_diagonal
  have first_ray: "\<bar>shoot_rays obstacle_map notebook_sensor (385, 450, radians 45) 8 ! 0 - 70.71\<bar> < 0.01"
    by blast
  have pre: "\<forall>d\<in>set (map (\<lambda>i. (385 + int i, 450 + int i)) [0..<50]).
      inbounds obstacle_map (fst d) (snd d) \<and> cell obstacle_map (snd d) (fst d) \<noteq> 1"
    using obstacle_map_diagonal by auto
  have hit: "inbounds obstacle_map (fst (435 :: int, 500 :: int)) (snd (435 :: int, 500 :: int)) \<and>
      cell obstacle_map (snd (435 :: int, 500 :: int)) (fst (435 :: int, 500 :: int)) = 1"
    using obstacle_map_diagonal by simp
  from at_obstacle have "ray_cells notebook_sensor 385 450 (radians 45) =
        map (\<lambda>i. (385 + int i, 450 + int i)) [0..<50] @ (435, 500) #
        map (\<lambda>i. (385 + int i, 450 + int i)) [51..<71] \<and>
      (\<forall>d\<in>set (map (\<lambda>i. (385 + int i, 450 + int i)) [0..<50]).
         inbounds obstacle_map (fst d) (snd d) \<and> cell obstacle_map (snd d) (fst d) \<noteq> 1) \<and>
      inbounds obstacle_map (fst (435 :: int, 500 :: int)) (snd (435 :: int, 500 :: int)) \<and>
      cell obstacle_map (snd (435 :: int, 500 :: int)) (fst (435 :: int, 500 :: int)) = 1 \<longrightarrow>
      fst (get_distance obstacle_map notebook_sensor 385 450 (radians 45)) =
        sqrt ((385 - real_of_int (fst (435 :: int, 500 :: int)))\<^sup>2 +
              (450 - real_of_int (snd (435 :: int, 500 :: int)))\<^sup>2)"
    by blast
  with ray_cells_example pre hit
  have exact: "fst (get_distance obstacle_map notebook_sensor 385 450 (radians 45)) =
     sqrt ((385 - real_of_int 435)\<^sup>2 + (450 - real_of_int 500)\<^sup>2)"
    by simp
  have "\<forall>d\<in>set [(1 :: int, 1 :: int), (2, 1)].
      inbounds free_map (fst d) (snd d) \<and> cell free_map (snd d) (fst d) \<noteq> 1"
    by (simp add: free_map_def inbounds_def)
  moreover have "\<not> inbounds free_map (fst (3 :: int, 1 :: int)) (snd (3 :: int, 1 :: int))"
    by (simp add: free_map_def inbounds_def)
  moreover from at_long have "ray_cells \<lparr>max_range = 5\<rparr> 1 1 0 =
        [(1, 1), (2, 1)] @ (3, 1) # [(4, 1), (5, 1), (6, 1)] \<and>
      (\<forall>d\<in>set [(1 :: int, 1 :: int), (2, 1)].
         inbounds free_map (fst d) (snd d) \<and> cell free_map (snd d) (fst d) \<noteq> 1) \<and>
      \<not> inbounds free_map (fst (3 :: int, 1 :: int)) (snd (3 :: int, 1 :: int)) \<longrightarrow>
      fst (get_distance free_map \<lparr>max_range = 5\<rparr> 1 1 0) =
        real_of_int (max_range \<lparr>max_range = 5\<rparr>)"
    by blast
  ultimately have leave: "fst (get_distance free_map \<lparr>max_range = 5\<rparr> 1 1 0) = 5"
    using ray_cells_long by simp
  have "\<forall>d\<in>set (ray_cells \<lparr>max_range = 1\<rparr> 1 1 0).
      inbounds free_map (fst d) (snd d) \<and> cell free_map (snd d) (fst d) \<noteq> 1"
    by (simp add: ray_cells_short free_map_def inbounds_def)
  with at_short have free: "fst (get_distance free_map \<lparr>max_range = 1\<rparr> 1 1 0) = 1"
    by simp
  from at_short have "shoot_rays free_map \<lparr>max_range = 1\<rparr> (1, 1, 0) 1 ! 0 =
      fst (get_distance free_map \<lparr>max_range = 1\<rparr> 1 1 (ray_angle 0 1 0))"
    by simp
  with free have rays: "shoot_rays free_map \<lparr>max_range = 1\<rparr> (1, 1, 0) 1 ! 0 = 1"
    by simp
  from near first_ray exact leave free rays show ?thesis by blast
qed


section \<open>Sampling from the prior: when the loop returns\<close>

lemma accepted_count_0 [simp]: "accepted_count grid grid_map st rng i 0 = 0"
  by (simp add: accepted_count_def)

lemma accepted_count_Suc:
  "accepted_count grid grid_map st rng i (Suc n) =
     (if accepted grid_map (candidate grid st (rng i)) then 1 else 0)
     + accepted_count grid grid_map st rng (Suc i) n"
proof -
  have "[i..<i + Suc n] = i # [Suc i..<Suc i + n]"
    by (simp add: upt_conv_Cons)
  then show ?thesis by (simp add: accepted_count_def)
qed

text \<open>Enough accepted candidates ahead: the loop returns.\<close>

lemma sample_loop_returns:
  assumes "N \<le> int (length samples) + int (accepted_count grid grid_map st rng i n)"
  shows "\<exists>r. sample_loop grid grid_map N st rng i samples = Some r"
  using assms
proof (induction n arbitrary: i samples)
  case 0
  then show ?case by (subst sample_loop.simps) simp
next
  case (Suc n)
  show ?case
  proof (cases "int (length samples) < N")
    case False
    then show ?thesis by (subst sample_loop.simps) simp
  next
    case True
    let ?s = "candidate grid st (rng i)"
    show ?thesis
    proof (cases "accepted grid_map ?s")
      case True
      with Suc.prems
      have "N \<le> int (length (samples @ [?s])) + int (accepted_count grid grid_map st rng (Suc i) n)"
        by (simp add: accepted_count_Suc)
      from Suc.IH [OF this] show ?thesis
        using True \<open>int (length samples) < N\<close> by (subst sample_loop.simps) (simp add: Let_def)
    next
      case False
      with Suc.prems
      have "N \<le> int (length samples) + int (accepted_count grid grid_map st rng (Suc i) n)"
        by (simp add: accepted_count_Suc)
      from Suc.IH [OF this] show ?thesis
        using False \<open>int (length samples) < N\<close> by (subst sample_loop.simps) (simp add: Let_def)
    qed
  qed
qed

text \<open>A loop that returns has met enough accepted candidates.\<close>

lemma sample_loop_result_bound:
  assumes "sample_loop grid grid_map N st rng i samples = Some r"
  shows "\<exists>n. N \<le> int (length samples) + int (accepted_count grid grid_map st rng i n)"
proof (rule sample_loop.raw_induct
    [where P = "\<lambda>grid grid_map N st rng i samples r.
       \<exists>n. N \<le> int (length samples) + int (accepted_count grid grid_map st rng i n)",
     OF _ assms])
  fix f :: "grid \<Rightarrow> grid \<Rightarrow> int \<Rightarrow> state option \<Rightarrow> draws \<Rightarrow> nat \<Rightarrow> state list
              \<Rightarrow> state list option"
    and grid grid_map N st rng i samples r
  assume IH: "\<And>grid grid_map N st rng i samples r. f grid grid_map N st rng i samples = Some r \<Longrightarrow>
      \<exists>n. N \<le> int (length samples) + int (accepted_count grid grid_map st rng i n)"
    and body: "(if int (length samples) < N
      then let s = candidate grid st (rng i)
           in if accepted grid_map s
              then f grid grid_map N st rng (Suc i) (samples @ [s])
              else f grid grid_map N st rng (Suc i) samples
      else Some samples) = Some r"
  show "\<exists>n. N \<le> int (length samples) + int (accepted_count grid grid_map st rng i n)"
  proof (cases "int (length samples) < N")
    case False
    then have "N \<le> int (length samples) + int (accepted_count grid grid_map st rng i 0)"
      by simp
    then show ?thesis by blast
  next
    case True
    let ?s = "candidate grid st (rng i)"
    show ?thesis
    proof (cases "accepted grid_map ?s")
      case True
      with body \<open>int (length samples) < N\<close>
      have "f grid grid_map N st rng (Suc i) (samples @ [?s]) = Some r"
        by (simp add: Let_def)
      from IH [OF this] obtain n where
        "N \<le> int (length (samples @ [?s])) + int (accepted_count grid grid_map st rng (Suc i) n)"
        by blast
      with True have "N \<le> int (length samples) + int (accepted_count grid grid_map st rng i (Suc n))"
        by (simp add: accepted_count_Suc)
      then show ?thesis by blast
    next
      case False
      with body \<open>int (length samples) < N\<close>
      have "f grid grid_map N st rng (Suc i) samples = Some r"
        by (simp add: Let_def)
      from IH [OF this] obtain n where
        "N \<le> int (length samples) + int (accepted_count grid grid_map st rng (Suc i) n)"
        by blast
      with False have "N \<le> int (length samples) + int (accepted_count grid grid_map st rng i (Suc n))"
        by (simp add: accepted_count_Suc)
      then show ?thesis by blast
    qed
  qed
qed

text \<open>What the loop returns: the samples it had, then accepted candidates, up to \<open>N\<close>.\<close>

lemma sample_loop_result_aux:
  assumes "sample_loop grid grid_map N st rng i samples = Some r"
  shows "(\<forall>s\<in>set samples. accepted grid_map s) \<longrightarrow> int (length samples) \<le> N \<longrightarrow>
         int (length r) = N \<and> (\<forall>s\<in>set r. accepted grid_map s)"
proof (rule sample_loop.raw_induct
    [where P = "\<lambda>grid grid_map N st rng i samples r.
       (\<forall>s\<in>set samples. accepted grid_map s) \<longrightarrow> int (length samples) \<le> N \<longrightarrow>
         int (length r) = N \<and> (\<forall>s\<in>set r. accepted grid_map s)",
     OF _ assms])
  fix f :: "grid \<Rightarrow> grid \<Rightarrow> int \<Rightarrow> state option \<Rightarrow> draws \<Rightarrow> nat \<Rightarrow> state list
              \<Rightarrow> state list option"
    and grid grid_map N st rng i samples r
  assume IH: "\<And>grid grid_map N st rng i samples r. f grid grid_map N st rng i samples = Some r \<Longrightarrow>
      (\<forall>s\<in>set samples. accepted grid_map s) \<longrightarrow> int (length samples) \<le> N \<longrightarrow>
         int (length r) = N \<and> (\<forall>s\<in>set r. accepted grid_map s)"
    and body: "(if int (length samples) < N
      then let s = candidate grid st (rng i)
           in if accepted grid_map s
              then f grid grid_map N st rng (Suc i) (samples @ [s])
              else f grid grid_map N st rng (Suc i) samples
      else Some samples) = Some r"
  show "(\<forall>s\<in>set samples. accepted grid_map s) \<longrightarrow> int (length samples) \<le> N \<longrightarrow>
         int (length r) = N \<and> (\<forall>s\<in>set r. accepted grid_map s)"
  proof (intro impI)
    assume ok: "\<forall>s\<in>set samples. accepted grid_map s" and le: "int (length samples) \<le> N"
    show "int (length r) = N \<and> (\<forall>s\<in>set r. accepted grid_map s)"
    proof (cases "int (length samples) < N")
      case False
      with body have "r = samples" by simp
      with False ok le show ?thesis by simp
    next
      case True
      let ?s = "candidate grid st (rng i)"
      show ?thesis
      proof (cases "accepted grid_map ?s")
        case True
        with body \<open>int (length samples) < N\<close>
        have "f grid grid_map N st rng (Suc i) (samples @ [?s]) = Some r"
          by (simp add: Let_def)
        moreover have "\<forall>s\<in>set (samples @ [?s]). accepted grid_map s"
          using True ok by simp
        moreover have "int (length (samples @ [?s])) \<le> N"
          using \<open>int (length samples) < N\<close> by simp
        ultimately show ?thesis using IH by blast
      next
        case False
        with body \<open>int (length samples) < N\<close>
        have "f grid grid_map N st rng (Suc i) samples = Some r"
          by (simp add: Let_def)
        then show ?thesis using IH ok le by blast
      qed
    qed
  qed
qed

lemma no_free_cell_count:
  assumes "\<forall>x y. \<not> valid_location grid_map x y"
  shows "accepted_count grid grid_map st rng i n = 0"
  using assms by (simp add: accepted_count_def accepted_def)

lemma sample_from_prior_returns:
  "(\<exists>samples. sample_from_prior grid grid_map N st rng = Some samples) =
   (\<exists>n. N \<le> int (accepted_count grid grid_map st rng 0 n))"
proof
  assume "\<exists>samples. sample_from_prior grid grid_map N st rng = Some samples"
  then obtain r where "sample_loop grid grid_map N st rng 0 [] = Some r"
    by (auto simp: sample_from_prior_def)
  from sample_loop_result_bound [OF this]
  show "\<exists>n. N \<le> int (accepted_count grid grid_map st rng 0 n)" by simp
next
  assume "\<exists>n. N \<le> int (accepted_count grid grid_map st rng 0 n)"
  then obtain n where "N \<le> int (length ([] :: state list)) + int (accepted_count grid grid_map st rng 0 n)"
    by auto
  from sample_loop_returns [OF this]
  show "\<exists>samples. sample_from_prior grid grid_map N st rng = Some samples"
    by (simp add: sample_from_prior_def)
qed

lemma sample_from_prior_result:
  assumes "sample_from_prior grid grid_map N st rng = Some samples"
  shows "int (length samples) = max N 0 \<and> (\<forall>s\<in>set samples. accepted grid_map s)"
proof (cases "0 \<le> N")
  case True
  from assms have "sample_loop grid grid_map N st rng 0 [] = Some samples"
    by (simp add: sample_from_prior_def)
  from sample_loop_result_aux [OF this] True show ?thesis by simp
next
  case False
  then have "sample_loop grid grid_map N st rng 0 [] = Some []"
    by (subst sample_loop.simps) simp
  with assms have "samples = []"
    by (simp add: sample_from_prior_def)
  with False show ?thesis by simp
qed

lemma sample_from_prior_no_free_cell:
  assumes "\<forall>x y. \<not> valid_location grid_map x y" and "0 < N"
  shows "sample_from_prior grid grid_map N st rng = None"
proof (rule ccontr)
  assume "sample_from_prior grid grid_map N st rng \<noteq> None"
  then have "\<exists>samples. sample_from_prior grid grid_map N st rng = Some samples"
    by auto
  then obtain n where "N \<le> int (accepted_count grid grid_map st rng 0 n)"
    unfolding sample_from_prior_returns by blast
  with assms show False
    by (simp add: no_free_cell_count)
qed

lemma blocked_map_no_free_cell: "\<not> valid_location blocked_map x y"
  by (simp add: valid_location_def blocked_map_def)

lemma free_map_first_candidate:
  "accepted_count free_map free_map None constant_draws 0 1 = 1"
proof -
  have "candidate free_map None (constant_draws 0) = (0, 0, - pi)"
    by (simp add: candidate_def constant_draws_def np_uniform_def Let_def)
  moreover have "accepted free_map (0, 0, - pi)"
    by (simp add: accepted_def valid_location_def inbounds_def free_map_def py_int_def)
  ultimately show ?thesis
    using accepted_count_Suc [of free_map free_map None constant_draws 0 0] by simp
qed

text \<open>
  C6, as the code has it.  \<open>sample_from_prior\<close> returns exactly when the random draws
  contain N accepted candidates, and then it returns N samples (none for a negative N),
  each at a valid location of the map.  There is no check for a map without free cells:
  on such a map, for N > 0 and every random source, the loop never returns, and no error
  is raised.
\<close>

theorem sample_from_prior_rejection_loop:
  "((\<exists>samples. sample_from_prior grid grid_map N st rng = Some samples) =
      (\<exists>n. N \<le> int (accepted_count grid grid_map st rng 0 n))) \<and>
   (\<forall>samples. sample_from_prior grid grid_map N st rng = Some samples \<longrightarrow>
      int (length samples) = max N 0 \<and>
      (\<forall>s\<in>set samples. valid_location grid_map (py_int (fst s)) (py_int (fst (snd s))))) \<and>
   ((\<forall>x y. \<not> valid_location grid_map x y) \<and> 0 < N \<longrightarrow>
      sample_from_prior grid grid_map N st rng = None)"
proof -
  have "\<forall>samples. sample_from_prior grid grid_map N st rng = Some samples \<longrightarrow>
      int (length samples) = max N 0 \<and>
      (\<forall>s\<in>set samples. valid_location grid_map (py_int (fst s)) (py_int (fst (snd s))))"
    using sample_from_prior_result [of grid grid_map N st rng]
    by (simp add: accepted_def)
  moreover have "(\<forall>x y. \<not> valid_location grid_map x y) \<and> 0 < N \<longrightarrow>
      sample_from_prior grid grid_map N st rng = None"
    using sample_from_prior_no_free_cell by blast
  ultimately show ?thesis
    using sample_from_prior_returns [of grid grid_map N st rng] by blast
qed

theorem sample_from_prior_rejection_loop_witness:
  "(\<exists>samples. sample_from_prior free_map free_map 1 None constant_draws = Some samples \<and>
      int (length samples) = 1 \<and>
      (\<forall>s\<in>set samples. valid_location free_map (py_int (fst s)) (py_int (fst (snd s))))) \<and>
   sample_from_prior free_map blocked_map 2 None constant_draws = None"
proof -
  note at_free =
    sample_from_prior_rejection_loop [where grid = free_map and grid_map = free_map
      and N = 1 and st = None and rng = constant_draws]
  note at_blocked =
    sample_from_prior_rejection_loop [where grid = free_map and grid_map = blocked_map
      and N = 2 and st = None and rng = constant_draws]
  have "(1 :: int) \<le> int (accepted_count free_map free_map None constant_draws 0 1)"
    unfolding free_map_first_candidate by simp
  then have "\<exists>n. (1 :: int) \<le> int (accepted_count free_map free_map None constant_draws 0 n)"
    by blast
  with at_free obtain samples where
    s: "sample_from_prior free_map free_map 1 None constant_draws = Some samples"
    by blast
  with at_free have "int (length samples) = max 1 0 \<and>
      (\<forall>s\<in>set samples. valid_location free_map (py_int (fst s)) (py_int (fst (snd s))))"
    by blast
  with s have first: "\<exists>samples. sample_from_prior free_map free_map 1 None constant_draws = Some samples \<and>
      int (length samples) = 1 \<and>
      (\<forall>s\<in>set samples. valid_location free_map (py_int (fst s)) (py_int (fst (snd s))))"
    by simp
  have "(\<forall>x y. \<not> valid_location blocked_map x y) \<and> (0 :: int) < 2"
    by (simp add: blocked_map_no_free_cell)
  with at_blocked have "sample_from_prior free_map blocked_map 2 None constant_draws = None"
    by blast
  with first show ?thesis by blast
qed

text \<open>
  C6, as the specification states it, fails: on a map whose only cell is an obstacle
  \<open>sample_from_prior\<close> with N = 1 does not fail with an error, it never returns.
\<close>

theorem sample_from_prior_no_free_cell_counterexample:
  "\<not> valid_location blocked_map 0 0 \<and>
   sample_from_prior blocked_map blocked_map 1 None constant_draws = None"
  using sample_from_prior_no_free_cell [of blocked_map 1 blocked_map None constant_draws]
  by (simp add: blocked_map_no_free_cell)


section \<open>The particle filter of the notebook\<close>

text \<open>
  C5.  \<open>particle_filter\<close> of the notebook does none of the steps of the cycle: for every
  number of time steps and of rays it returns the particle set and the ground-truth
  state it was given.
\<close>

theorem particle_filter_returns_inputs:
  "particle_filter grid sensor ground_truth_state samples n_timesteps rays =
     (samples, ground_truth_state)"
  by (simp add: particle_filter_def)

section \<open>The Kalman filter of the notebook\<close>

lemma KF_predict_unbound:
  "KF_predict Map.empty self u = (self, Inl NameError)"
  by (simp add: KF_predict_def)

text \<open>
  C1.  In the notebook as it is run, no global \<^verbatim>\<open>mu_bar\<close> is bound when \<open>predict\<close> is
  first called: the call raises NameError, for every belief and every control input,
  returns no pair and leaves the object as it was.  Where the names are bound,
  the result is their values, whatever the control input is.
\<close>

theorem KF_predict_raises_NameError:
  "KF_predict Map.empty MYKF no_control = (MYKF, Inl NameError) \<and>
   KF_predict Map.empty self u = (self, Inl NameError) \<and>
   KF_predict globals self u = KF_predict globals self u'"
  by (simp add: KF_predict_def)

text \<open>
  C8.  A call of \<open>predict\<close> followed by a call of \<open>update\<close> raises NameError in
  \<open>predict\<close>, for every belief, control input and observation; \<open>update\<close> alone raises
  NameError as well.  No corrected mean is computed.
\<close>

theorem predict_then_update_raises_NameError:
  "predict_then_update Map.empty MYKF no_control z = (MYKF, Inl NameError) \<and>
   predict_then_update Map.empty self u z = (self, Inl NameError) \<and>
   KF_update Map.empty self z = (self, Inl NameError)"
  by (simp add: predict_then_update_def KF_predict_unbound KF_update_def)


section \<open>The simulated measurement\<close>

lemma np_randint_range:
  assumes "low < high" and "0 \<le> u" and "u < 1"
  shows "\<exists>r. np_randint low high u = Inr r \<and> low \<le> r \<and> r < high"
proof -
  have pos: "0 < real_of_int (high - low)"
    using assms(1) by simp
  have "0 \<le> real_of_int (high - low) * u"
    using pos assms(2) by simp
  then have lower: "0 \<le> \<lfloor>real_of_int (high - low) * u\<rfloor>"
    by simp
  have "real_of_int (high - low) * u < real_of_int (high - low) * 1"
    using pos assms(3) by (intro mult_strict_left_mono) simp_all
  then have "\<lfloor>real_of_int (high - low) * u\<rfloor> < high - low"
    by (simp add: floor_less_iff)
  with lower assms(1) show ?thesis
    by (simp add: np_randint_def)
qed

text \<open>
  The branches of \<open>measure\<close>, by the number \<open>p\<close> of \<^verbatim>\<open>np.random.rand()\<close>: up to 0.95 the
  reading is the expected distance plus a standard normal deviate; above 0.95 and up to
  0.98 it is one of the integers 0, ..., max_range; above 0.98 it is max_range.
\<close>

theorem measure_lidar_branches:
  assumes "0 \<le> max_range sensor" and "0 \<le> u" and "u < 1"
  shows "(p \<le> 0.95 \<longrightarrow> measure_lidar sensor e (p, z, u) = Inr (e + z)) \<and>
         (0.95 < p \<and> p \<le> 0.98 \<longrightarrow>
            (\<exists>r. measure_lidar sensor e (p, z, u) = Inr (real_of_int r) \<and>
                 0 \<le> r \<and> r \<le> max_range sensor)) \<and>
         (0.98 < p \<longrightarrow> measure_lidar sensor e (p, z, u) = Inr (real_of_int (max_range sensor)))"
proof -
  have "(0 :: int) < max_range sensor + 1"
    using assms(1) by simp
  from np_randint_range [OF this assms(2,3)]
  obtain r where r: "random_measure sensor u = Inr r" "0 \<le> r" "r \<le> max_range sensor"
    by (auto simp: random_measure_def)
  have "0.95 < p \<and> p \<le> 0.98 \<longrightarrow>
            (\<exists>r. measure_lidar sensor e (p, z, u) = Inr (real_of_int r) \<and>
                 0 \<le> r \<and> r \<le> max_range sensor)"
    using r by (auto simp: measure_lidar_def)
  moreover have "p \<le> 0.95 \<longrightarrow> measure_lidar sensor e (p, z, u) = Inr (e + z)"
    by (simp add: measure_lidar_def hit_measure_def np_normal_def)
  moreover have "0.98 < p \<longrightarrow>
      measure_lidar sensor e (p, z, u) = Inr (real_of_int (max_range sensor))"
    by (simp add: measure_lidar_def failure_measure_def)
  ultimately show ?thesis by blast
qed

theorem measure_lidar_branches_witness:
  "measure_lidar notebook_sensor 70 (0.5, 0.25, 0.5) = Inr (70 + 0.25) \<and>
   (\<exists>r. measure_lidar notebook_sensor 70 (0.96, 0.25, 0.5) = Inr (real_of_int r) \<and>
        0 \<le> r \<and> r \<le> 100) \<and>
   measure_lidar notebook_sensor 70 (0.99, 0.25, 0.5) = Inr 100"
proof -
  have range: "0 \<le> max_range notebook_sensor" "(0 :: real) \<le> 0.5" "(0.5 :: real) < 1"
    by (simp_all add: notebook_sensor_def)
  have "(0.5 :: real) \<le> 0.95" by simp
  with measure_lidar_branches [OF range, where p = "0.5" and e = 70 and z = "0.25"]
  have hit: "measure_lidar notebook_sensor 70 (0.5, 0.25, 0.5) = Inr (70 + 0.25)"
    by blast
  have "(0.95 :: real) < 0.96 \<and> (0.96 :: real) \<le> 0.98" by simp
  with measure_lidar_branches [OF range, where p = "0.96" and e = 70 and z = "0.25"]
  have "\<exists>r. measure_lidar notebook_sensor 70 (0.96, 0.25, 0.5) = Inr (real_of_int r) \<and>
        0 \<le> r \<and> r \<le> max_range notebook_sensor"
    by blast
  then have rand: "\<exists>r. measure_lidar notebook_sensor 70 (0.96, 0.25, 0.5) = Inr (real_of_int r) \<and>
        0 \<le> r \<and> r \<le> 100"
    by (simp add: notebook_sensor_def)
  have "(0.98 :: real) < 0.99" by simp
  with measure_lidar_branches [OF range, where p = "0.99" and e = 70 and z = "0.25"]
  have "measure_lidar notebook_sensor 70 (0.99, 0.25, 0.5) =
      Inr (real_of_int (max_range notebook_sensor))"
    by blast
  then have "measure_lidar notebook_sensor 70 (0.99, 0.25, 0.5) = Inr 100"
    by (simp add: notebook_sensor_def)
  with hit rand show ?thesis by blast
qed


section \<open>The simulated measurement against the likelihood\<close>

lemma hit_branch_reading:
  assumes "p \<le> 0.95"
  shows "measure_lidar sensor e (p, z, u) = Inr (e + z)"
  using assms by (simp add: measure_lidar_def hit_measure_def np_normal_def)

lemma failure_branch_reading:
  assumes "0.98 < p"
  shows "measure_lidar sensor e (p, z, u) = Inr (real_of_int (max_range sensor))"
  using assms by (simp add: measure_lidar_def failure_measure_def)

lemma random_branch_reading:
  assumes "0 \<le> max_range sensor" and "0.95 < p" and "p \<le> 0.98"
  shows "measure_lidar sensor e (p, z, u) =
           Inr (real_of_int \<lfloor>real_of_int (max_range sensor + 1) * u\<rfloor>)"
  using assms by (simp add: measure_lidar_def random_measure_def np_randint_def)

lemma floor_scaled_interval:
  fixes u c :: real
  assumes "0 < c"
  shows "(\<lfloor>c * u\<rfloor> = v) = (real_of_int v / c \<le> u \<and> u < real_of_int (v + 1) / c)"
proof -
  have "(\<lfloor>c * u\<rfloor> = v) = (real_of_int v \<le> c * u \<and> c * u < real_of_int v + 1)"
    by (rule floor_eq_iff)
  also have "\<dots> = (real_of_int v / c \<le> u \<and> u < real_of_int (v + 1) / c)"
    using assms by (simp add: pos_divide_le_eq pos_less_divide_eq mult.commute)
  finally show ?thesis .
qed

lemma random_branch_interval:
  assumes "0 \<le> max_range sensor" and "0.95 < p" and "p \<le> 0.98"
  shows "(measure_lidar sensor e (p, z, u) = Inr (real_of_int v)) =
           (real_of_int v / real_of_int (max_range sensor + 1) \<le> u \<and>
            u < real_of_int (v + 1) / real_of_int (max_range sensor + 1))"
proof -
  have "0 < real_of_int (max_range sensor + 1)"
    using assms(1) by simp
  from floor_scaled_interval [OF this, of u v] show ?thesis
    by (simp add: random_branch_reading [OF assms])
qed

lemma random_branch_range:
  assumes "0 \<le> max_range sensor" and "0.95 < p" and "p \<le> 0.98" and "0 \<le> u" and "u < 1"
  shows "\<exists>v. 0 \<le> v \<and> v \<le> max_range sensor \<and>
           measure_lidar sensor e (p, z, u) = Inr (real_of_int v)"
proof -
  let ?c = "real_of_int (max_range sensor + 1)"
  have c: "0 < ?c" using assms(1) by simp
  have "0 \<le> ?c * u" using c assms(4) by simp
  then have lower: "0 \<le> \<lfloor>?c * u\<rfloor>" by simp
  have "?c * u < ?c * 1"
    using c assms(5) by (intro mult_strict_left_mono) simp_all
  then have "?c * u < real_of_int (max_range sensor + 1)"
    by simp
  then have "\<lfloor>?c * u\<rfloor> < max_range sensor + 1"
    by (simp only: floor_less_iff)
  with lower show ?thesis
    using random_branch_reading [OF assms(1,2,3), of e z u] by auto
qed

lemma lookup_prob_by_deviate:
  assumes "max_range sensor \<noteq> 0"
  shows "lookup_prob sensor e m =
           Inr (0.95 * norm_pdf (m - e) 0 1
                + 0.03 * (1 / real_of_int (max_range sensor))
                + (if m = real_of_int (max_range sensor) then 0.02 else 0))"
  using assms by (simp add: lookup_prob_def Let_def norm_pdf_def)

text \<open>
  C9, as the code has it.  For a sensor with max_range > 0, branch by branch, with \<open>p\<close>
  the number of \<^verbatim>\<open>np.random.rand()\<close>, \<open>z\<close> the standard normal deviate and \<open>u\<close> the
  uniform number behind \<^verbatim>\<open>randint\<close>.  Hit, \<open>p\<close> up to 0.95: the reading is \<open>m\<close> exactly
  for the deviate \<open>m - e\<close>, and the first term of \<open>lookup_prob\<close> is 0.95 times the
  standard normal density there.  Failure, \<open>p\<close> above 0.98: the reading is max_range,
  where \<open>lookup_prob\<close> adds 0.02.  Random return, \<open>p\<close> between: the reading is one of
  the integers 0, ..., max_range, and it is the integer \<open>v\<close> exactly for \<open>u\<close> in an
  interval of length 1 / (max_range + 1); the second term of \<open>lookup_prob\<close> is the
  constant 0.03 / max_range at every measured distance, and 1 / (max_range + 1) is less
  than 1 / max_range.
\<close>

theorem measure_lookup_prob_branches:
  assumes "0 < max_range sensor"
  shows "(p \<le> 0.95 \<longrightarrow> (measure_lidar sensor e (p, z, u) = Inr m) = (z = m - e)) \<and>
         (0.98 < p \<longrightarrow>
            (measure_lidar sensor e (p, z, u) = Inr m) = (m = real_of_int (max_range sensor))) \<and>
         (0.95 < p \<and> p \<le> 0.98 \<longrightarrow>
            (\<forall>v. (measure_lidar sensor e (p, z, u) = Inr (real_of_int v)) =
                   (real_of_int v / real_of_int (max_range sensor + 1) \<le> u \<and>
                    u < real_of_int (v + 1) / real_of_int (max_range sensor + 1))) \<and>
            (0 \<le> u \<and> u < 1 \<longrightarrow>
               (\<exists>v. 0 \<le> v \<and> v \<le> max_range sensor \<and>
                    measure_lidar sensor e (p, z, u) = Inr (real_of_int v)))) \<and>
         real_of_int (v + 1) / real_of_int (max_range sensor + 1)
           - real_of_int v / real_of_int (max_range sensor + 1)
           = 1 / real_of_int (max_range sensor + 1) \<and>
         1 / real_of_int (max_range sensor + 1) < 1 / real_of_int (max_range sensor) \<and>
         lookup_prob sensor e m =
           Inr (0.95 * norm_pdf (m - e) 0 1
                + 0.03 * (1 / real_of_int (max_range sensor))
                + (if m = real_of_int (max_range sensor) then 0.02 else 0))"
proof -
  have range: "0 \<le> max_range sensor" and nz: "max_range sensor \<noteq> 0"
    using assms by simp_all
  have hit: "p \<le> 0.95 \<longrightarrow> (measure_lidar sensor e (p, z, u) = Inr m) = (z = m - e)"
    by (auto simp: hit_branch_reading)
  have failure: "0.98 < p \<longrightarrow>
      (measure_lidar sensor e (p, z, u) = Inr m) = (m = real_of_int (max_range sensor))"
    by (auto simp: failure_branch_reading)
  have random: "0.95 < p \<and> p \<le> 0.98 \<longrightarrow>
      (\<forall>v. (measure_lidar sensor e (p, z, u) = Inr (real_of_int v)) =
             (real_of_int v / real_of_int (max_range sensor + 1) \<le> u \<and>
              u < real_of_int (v + 1) / real_of_int (max_range sensor + 1))) \<and>
      (0 \<le> u \<and> u < 1 \<longrightarrow>
         (\<exists>v. 0 \<le> v \<and> v \<le> max_range sensor \<and>
              measure_lidar sensor e (p, z, u) = Inr (real_of_int v)))"
    using random_branch_interval [OF range] random_branch_range [OF range] by blast
  have length: "real_of_int (v + 1) / real_of_int (max_range sensor + 1)
           - real_of_int v / real_of_int (max_range sensor + 1)
           = 1 / real_of_int (max_range sensor + 1)"
    by (simp add: diff_divide_distrib [symmetric])
  have less: "1 / real_of_int (max_range sensor + 1) < 1 / real_of_int (max_range sensor)"
    using assms by (simp add: frac_less2)
  from hit failure random length less lookup_prob_by_deviate [OF nz] show ?thesis
    by blast
qed

theorem measure_lookup_prob_branches_witness:
  "0 < max_range notebook_sensor \<and>
   measure_lidar notebook_sensor 70 (0.5, 0.25, 0.5) = Inr 70.25 \<and>
   measure_lidar notebook_sensor 70 (0.99, 0.25, 0.5) = Inr 100 \<and>
   measure_lidar notebook_sensor 70 (0.96, 0.25, 0.5) = Inr 50 \<and>
   lookup_prob notebook_sensor 70 50 =
     Inr (0.95 * norm_pdf (50 - 70) 0 1 + 0.03 * (1 / 100) + 0)"
proof -
  have pos: "0 < max_range notebook_sensor"
    by (simp add: notebook_sensor_def)
  have M: "max_range notebook_sensor = 100"
    by (simp add: notebook_sensor_def)
  note at_hit = measure_lookup_prob_branches [OF pos, where p = "0.5" and e = 70
      and z = "0.25" and u = "0.5" and m = "70.25" and v = 50]
  note at_failure = measure_lookup_prob_branches [OF pos, where p = "0.99" and e = 70
      and z = "0.25" and u = "0.5" and m = 100 and v = 50]
  note at_random = measure_lookup_prob_branches [OF pos, where p = "0.96" and e = 70
      and z = "0.25" and u = "0.5" and m = 50 and v = 50]
  have "(0.5 :: real) \<le> 0.95" and "(0.25 :: real) = 70.25 - 70" by simp_all
  with at_hit have hit: "measure_lidar notebook_sensor 70 (0.5, 0.25, 0.5) = Inr 70.25"
    by blast
  have "(0.98 :: real) < 0.99" and "(100 :: real) = real_of_int (max_range notebook_sensor)"
    by (simp_all add: M)
  with at_failure have failure: "measure_lidar notebook_sensor 70 (0.99, 0.25, 0.5) = Inr 100"
    by blast
  have "(0.95 :: real) < 0.96 \<and> (0.96 :: real) \<le> 0.98" by simp
  with at_random have "(measure_lidar notebook_sensor 70 (0.96, 0.25, 0.5) = Inr (real_of_int 50)) =
      (real_of_int 50 / real_of_int (max_range notebook_sensor + 1) \<le> 0.5 \<and>
       0.5 < real_of_int (50 + 1) / real_of_int (max_range notebook_sensor + 1))"
    by blast
  then have random: "measure_lidar notebook_sensor 70 (0.96, 0.25, 0.5) = Inr 50"
    by (simp add: M)
  from at_random have "lookup_prob notebook_sensor 70 50 =
      Inr (0.95 * norm_pdf (50 - 70) 0 1
           + 0.03 * (1 / real_of_int (max_range notebook_sensor))
           + (if 50 = real_of_int (max_range notebook_sensor) then 0.02 else 0))"
    by blast
  then have "lookup_prob notebook_sensor 70 50 =
     Inr (0.95 * norm_pdf (50 - 70) 0 1 + 0.03 * (1 / 100) + 0)"
    by (simp add: M)
  with pos hit failure random show ?thesis by blast
qed

text \<open>
  C9, as the specification states it, fails on the random return.  For the sensor of
  maximum range 100: the random branch returns 50 exactly for the uniform numbers of an
  interval of length 1 / 101, and never returns 50.5, while \<open>lookup_prob\<close> has the random
  term 0.03 / 100 at both distances; and the random branch can return the maximum range
  100 itself, where \<open>lookup_prob\<close> counts the failure weight 0.02 only.
\<close>

theorem measure_likelihood_counterexample:
  "{u. 0 \<le> u \<and> u < 1 \<and> measure_lidar notebook_sensor 70 (0.96, 0, u) = Inr 50} =
     {50 / 101 ..< 51 / 101} \<and>
   (51 / 101 - 50 / 101 :: real) \<noteq> 1 / 100 \<and>
   {u. 0 \<le> u \<and> u < 1 \<and> measure_lidar notebook_sensor 70 (0.96, 0, u) = Inr 50.5} = {} \<and>
   lookup_prob notebook_sensor 70 50 = Inr (0.95 * gaussian_density 70 1 50 + 0.03 * (1 / 100)) \<and>
   lookup_prob notebook_sensor 70 50.5 =
     Inr (0.95 * gaussian_density 70 1 50.5 + 0.03 * (1 / 100)) \<and>
   measure_lidar notebook_sensor 70 (0.96, 0, 100 / 101) = Inr 100 \<and>
   lookup_prob notebook_sensor 70 100 =
     Inr (0.95 * gaussian_density 70 1 100 + 0.03 * (1 / 100) + 0.02)"
proof -
  have range: "0 \<le> max_range notebook_sensor" "(0.95 :: real) < 0.96" "(0.96 :: real) \<le> 0.98"
    by (simp_all add: notebook_sensor_def)
  have M: "max_range notebook_sensor = 100"
    by (simp add: notebook_sensor_def)
  have reading: "measure_lidar notebook_sensor 70 (0.96, 0, u) = Inr (real_of_int \<lfloor>101 * u\<rfloor>)" for u
    using random_branch_reading [OF range, of 70 0 u] by (simp add: M)
  have "(\<lfloor>101 * u\<rfloor> = 50) = (50 / 101 \<le> u \<and> u < 51 / 101)" for u :: real
    using floor_scaled_interval [of 101 u 50] by simp
  moreover have "(Inr (real_of_int \<lfloor>101 * u\<rfloor>) = (Inr 50 :: py_error + real)) = (\<lfloor>101 * u\<rfloor> = 50)"
    for u :: real
    by simp
  ultimately have iff: "(measure_lidar notebook_sensor 70 (0.96, 0, u) = Inr 50) =
      (50 / 101 \<le> u \<and> u < 51 / 101)" for u
    unfolding reading by (simp only:)
  have fifty: "{u. 0 \<le> u \<and> u < 1 \<and> measure_lidar notebook_sensor 70 (0.96, 0, u) = Inr 50} =
      {50 / 101 ..< 51 / 101}"
    unfolding iff by auto
  have not_half: "real_of_int n \<noteq> 50.5" for n
  proof
    assume "real_of_int n = 50.5"
    then have "real_of_int (2 * n) = real_of_int 101" by simp
    then have "2 * n = 101" by (simp only: of_int_eq_iff)
    then show False by presburger
  qed
  have half: "{u. 0 \<le> u \<and> u < 1 \<and> measure_lidar notebook_sensor 70 (0.96, 0, u) = Inr 50.5} = {}"
    unfolding reading using not_half by simp
  have "\<lfloor>101 * (100 / 101 :: real)\<rfloor> = 100" by simp
  then have top: "measure_lidar notebook_sensor 70 (0.96, 0, 100 / 101) = Inr 100"
    unfolding reading by simp
  have lp: "lookup_prob notebook_sensor 70 50 = Inr (0.95 * gaussian_density 70 1 50 + 0.03 * (1 / 100))"
    "lookup_prob notebook_sensor 70 50.5 = Inr (0.95 * gaussian_density 70 1 50.5 + 0.03 * (1 / 100))"
    "lookup_prob notebook_sensor 70 100 =
       Inr (0.95 * gaussian_density 70 1 100 + 0.03 * (1 / 100) + 0.02)"
    by (simp_all add: lookup_prob_def Let_def norm_pdf_gaussian M)
  have "(51 / 101 - 50 / 101 :: real) \<noteq> 1 / 100" by simp
  with fifty half top lp show ?thesis by blast
qed

end
